theory Spec2Isabelle
  imports Complex_Main "HOL-Library.AList" "HOL-Library.Log_Nat"
begin

section \<open>JavaScript numbers\<close>

text \<open>
  A JavaScript number is an IEEE 754 double: a finite value, given by its sign
  (\<open>True\<close> for negative) and its magnitude, so that zero has a sign; an infinity with
  its sign; or \<open>NaN\<close>. The magnitude of a finite value is a rational that the format
  represents exactly.
\<close>

datatype number = Num bool rat | Infinite bool | NaN

definition pow2 :: "int \<Rightarrow> rat" where
  "pow2 e = (if 0 \<le> e then 2 ^ nat e else 1 / 2 ^ nat (- e))"

text \<open>The binary exponent of a positive rational \<open>r\<close>: \<open>2 ^ e \<le> r < 2 ^ (e + 1)\<close>.\<close>

definition floor_log2 :: "rat \<Rightarrow> int" where
  "floor_log2 r =
     (case quotient_of r of (a, b) \<Rightarrow>
        (let e0 = bitlen a - bitlen b in if r < pow2 e0 then e0 - 1 else e0))"

definition roundTiesToEven :: "rat \<Rightarrow> int" where
  "roundTiesToEven q =
     (let f = \<lfloor>q\<rfloor>; d = q - of_int f
      in if d < 1 / 2 then f else if 1 / 2 < d then f + 1 else if even f then f else f + 1)"

text \<open>
  Rounding a magnitude to the format, to nearest with ties to even: 53 significant
  bits, the spacing of the subnormal values below \<open>2 ^ - 1022\<close>, and no value (an
  overflow) from \<open>2 ^ 1024\<close> on.
\<close>

definition round_mag :: "rat \<Rightarrow> rat option" where
  "round_mag r =
     (if r = 0 then Some 0
      else (let e = max (floor_log2 r) (- 1022);
                ulp = pow2 (e - 52);
                m = of_int (roundTiesToEven (r / ulp)) * ulp
            in if pow2 1024 \<le> m then None else Some m))"

definition rounded :: "bool \<Rightarrow> rat \<Rightarrow> number" where
  "rounded s r = (case round_mag r of None \<Rightarrow> Infinite s | Some m \<Rightarrow> Num s m)"

text \<open>The operators \<open>*\<close>, \<open>+\<close> and \<open><\<close> on numbers.\<close>

fun num_mul :: "number \<Rightarrow> number \<Rightarrow> number" where
  "num_mul (Num s m) (Num t n) = rounded (s \<noteq> t) (m * n)"
| "num_mul (Num s m) (Infinite t) = (if m = 0 then NaN else Infinite (s \<noteq> t))"
| "num_mul (Infinite s) (Num t n) = (if n = 0 then NaN else Infinite (s \<noteq> t))"
| "num_mul (Infinite s) (Infinite t) = Infinite (s \<noteq> t)"
| "num_mul _ _ = NaN"

fun num_add :: "number \<Rightarrow> number \<Rightarrow> number" where
  "num_add (Num s m) (Num t n) =
     (if s = t then rounded s (m + n)
      else if m = n then Num False 0
      else if n < m then rounded s (m - n) else rounded t (n - m))"
| "num_add (Num s m) (Infinite t) = Infinite t"
| "num_add (Infinite s) (Num t n) = Infinite s"
| "num_add (Infinite s) (Infinite t) = (if s = t then Infinite s else NaN)"
| "num_add _ _ = NaN"

definition signed_value :: "bool \<Rightarrow> rat \<Rightarrow> rat" where
  "signed_value s m = (if s then - m else m)"

fun num_lt :: "number \<Rightarrow> number \<Rightarrow> bool" where
  "num_lt (Num s m) (Num t n) = (signed_value s m < signed_value t n)"
| "num_lt (Num s m) (Infinite t) = (\<not> t)"
| "num_lt (Infinite s) (Num t n) = s"
| "num_lt (Infinite s) (Infinite t) = (s \<and> \<not> t)"
| "num_lt _ _ = False"

definition isNaN :: "number \<Rightarrow> bool" where
  "isNaN x = (case x of NaN \<Rightarrow> True | _ \<Rightarrow> False)"

text \<open>The number an integer literal denotes, for an integer of at most 53 bits.\<close>

definition int_num :: "int \<Rightarrow> number" where
  "int_num n = Num (n < 0) (of_int \<bar>n\<bar>)"

section \<open>Values, errors and HTTP responses\<close>

text \<open>
  A JavaScript \<open>Error\<close> object as the handlers and the error middleware read it: its
  \<open>name\<close>, its \<open>code\<close> (absent, a number as for a MongoError, or a string as for a
  Node system error) and its \<open>message\<close>.
\<close>

datatype err_code = NoCode | NumCode int | StrCode string

record js_error =
  name :: string
  code :: err_code
  message :: string

text \<open>Mongo identifiers (\<open>ObjectId\<close>) are numbers; a request carries them as hex strings.\<close>

type_synonym objid = nat

text \<open>
  The documents of \<open>models/category.js\<close>, \<open>product.js\<close>, \<open>orderItem.js\<close> and
  \<open>order.js\<close>. A field that a handler can store \<open>null\<close> in is an option. The
  creation date of a product is left out.
\<close>

record category =
  cat_name :: string
  cat_icon :: "string option"
  cat_color :: "string option"
  cat_image :: "string option"

record product =
  prod_name :: string
  prod_description :: string
  richDescription :: string
  image_url :: string
  images :: "string list"
  brand :: string
  price :: "number option"
  prod_category :: objid
  countInStock :: number
  rating :: "number option"
  isFeatured :: bool

record orderItem =
  quantity :: number
  item_product :: objid

record order =
  order_items :: "objid list"
  shippingAddress1 :: string
  shippingAddress2 :: "string option"
  city :: string
  zipCode :: string
  country :: string
  phone :: string
  status :: "string option"
  totalPrice :: number
  user :: "objid option"
  dateOrdered :: "nat option"

text \<open>The user document, with the fields \<open>routers/users.js\<close> reads and writes.\<close>

record user =
  user_name :: string
  email :: string
  passwordHash :: string
  isAdmin :: bool

datatype doc =
    CategoryDoc objid category
  | ProductDoc objid product
  | OrderItemDoc objid orderItem
  | OrderDoc objid order
  | UserDoc objid user

text \<open>
  What a handler passes to \<open>res.json\<close> or \<open>res.send\<close>: JSON, a stored document, or an
  \<open>Error\<close> object. An object literal is an association list in the order it is written.
\<close>

datatype json =
    JNull
  | JBool bool
  | JNum int
  | JStr string
  | JArr "json list"
  | JObj "(string \<times> json) list"
  | JDoc doc
  | JError js_error

record response =
  code_of :: nat
  body :: json

text \<open>
  The Express response object \<open>res\<close>. \<open>res.status(n)\<close> sets the status the next send
  uses (200 at first). The first send goes to the client; every later send is recorded
  and throws \<open>ERR_HTTP_HEADERS_SENT\<close>, which ends the handler. A handler that has thrown
  runs no further statement.
\<close>

record res =
  statusCode :: nat
  sent :: "response option"
  calls :: "response list"
  thrown :: "js_error option"

definition res0 :: res where
  "res0 = \<lparr>statusCode = 200, sent = None, calls = [], thrown = None\<rparr>"

definition headers_sent :: js_error where
  "headers_sent = \<lparr>name = ''Error'', code = StrCode ''ERR_HTTP_HEADERS_SENT'',
     message = ''Cannot set headers after they are sent to the client''\<rparr>"

definition res_status :: "nat \<Rightarrow> res \<Rightarrow> res" where
  "res_status n r = (if thrown r \<noteq> None then r else r\<lparr>statusCode := n\<rparr>)"

text \<open>\<open>res.send(b)\<close> and \<open>res.json(b)\<close>.\<close>

definition res_send :: "json \<Rightarrow> res \<Rightarrow> res" where
  "res_send b r =
     (if thrown r \<noteq> None then r
      else if sent r = None
        then r\<lparr>sent := Some \<lparr>code_of = statusCode r, body = b\<rparr>,
               calls := calls r @ [\<lparr>code_of = statusCode r, body = b\<rparr>]\<rparr>
        else r\<lparr>calls := calls r @ [\<lparr>code_of = statusCode r, body = b\<rparr>],
               thrown := Some headers_sent\<rparr>)"

text \<open>\<open>res.status(n).json(b)\<close> and \<open>res.status(n).send(b)\<close>.\<close>

definition send :: "nat \<Rightarrow> json \<Rightarrow> res \<Rightarrow> res" where
  "send n b r = res_send b (res_status n r)"

definition throw :: "js_error \<Rightarrow> res \<Rightarrow> res" where
  "throw e r = (if thrown r \<noteq> None then r else r\<lparr>thrown := Some e\<rparr>)"

section \<open>Strings as JavaScript handles them\<close>

definition toUpperCase_char :: "char \<Rightarrow> char" where
  "toUpperCase_char c =
     (case map_of (zip ''abcdefghijklmnopqrstuvwxyz'' ''ABCDEFGHIJKLMNOPQRSTUVWXYZ'') c of
        None \<Rightarrow> c | Some u \<Rightarrow> u)"

definition toLowerCase_char :: "char \<Rightarrow> char" where
  "toLowerCase_char c =
     (case map_of (zip ''ABCDEFGHIJKLMNOPQRSTUVWXYZ'' ''abcdefghijklmnopqrstuvwxyz'') c of
        None \<Rightarrow> c | Some l \<Rightarrow> l)"

definition toLowerCase :: "string \<Rightarrow> string" where
  "toLowerCase s = map toLowerCase_char s"

definition toUpperCase :: "string \<Rightarrow> string" where
  "toUpperCase s = map toUpperCase_char s"

fun startsWith :: "string \<Rightarrow> string \<Rightarrow> bool" where
  "startsWith s [] = True"
| "startsWith [] (p # ps) = False"
| "startsWith (c # cs) (p # ps) = (c = p \<and> startsWith cs ps)"

definition endsWith :: "string \<Rightarrow> string \<Rightarrow> bool" where
  "endsWith s p = startsWith (rev s) (rev p)"

fun includes_str :: "string \<Rightarrow> string \<Rightarrow> bool" where
  "includes_str [] p = (p = [])"
| "includes_str (c # cs) p = (startsWith (c # cs) p \<or> includes_str cs p)"

text \<open>\<open>s.split(c)\<close> for a one-character separator: never empty, pieces may be.\<close>

fun split :: "char \<Rightarrow> string \<Rightarrow> string list" where
  "split c [] = [[]]"
| "split c (x # xs) =
     (if x = c then [] # split c xs
      else (case split c xs of [] \<Rightarrow> [[x]] | w # ws \<Rightarrow> (x # w) # ws))"

section \<open>The error middleware (helpers/error-handler.js)\<close>

definition msg :: "string \<Rightarrow> json" where
  "msg s = JObj [(''message'', JStr s)]"

definition errorHandler :: "js_error \<Rightarrow> response" where
  "errorHandler err =
    (if name err = ''UnauthorizedError'' then \<lparr>code_of = 401, body = msg ''Unauthorized''\<rparr>
     else if name err = ''NotFoundError'' then \<lparr>code_of = 404, body = msg ''Resource not found''\<rparr>
     else if name err = ''ValidationError'' then \<lparr>code_of = 400, body = msg (message err)\<rparr>
     else if name err = ''CastError'' then \<lparr>code_of = 400, body = msg ''Invalid ID format''\<rparr>
     else if name err = ''JsonWebTokenError'' then \<lparr>code_of = 401, body = msg ''Invalid token''\<rparr>
     else if name err = ''TokenExpiredError'' then \<lparr>code_of = 401, body = msg ''Token expired''\<rparr>
     else if name err = ''MongoError'' \<and> code err = NumCode 11000
       then \<lparr>code_of = 400, body = msg ''Duplicate key error''\<rparr>
     else if name err = ''MulterError'' then \<lparr>code_of = 400, body = msg (message err)\<rparr>
     else if name err = ''SyntaxError'' then \<lparr>code_of = 400, body = msg ''Invalid JSON format''\<rparr>
     else if name err = ''RangeError'' then \<lparr>code_of = 400, body = msg ''Range error''\<rparr>
     else if name err = ''TypeError''
       then \<lparr>code_of = 400, body = JObj [(''message'', JStr ''Type error''), (''error'', JError err)]\<rparr>
     else if name err = ''ReferenceError'' then \<lparr>code_of = 400, body = msg ''Reference error''\<rparr>
     else \<lparr>code_of = 500, body = JObj [(''message'', JError err)]\<rparr>)"

section \<open>The document store\<close>

text \<open>
  Mongoose casts a request string to an \<open>ObjectId\<close> when it is 24 hexadecimal digits;
  any other string makes the query reject with a \<open>CastError\<close>, the error the error
  middleware names \<open>Invalid ID format\<close>. (Old versions of the library also take any
  string of 12 characters.) Of an error the name and the code are as the library sets
  them; the texts of the messages are abbreviated.
\<close>

definition hex_digit :: "char \<Rightarrow> nat option" where
  "hex_digit c =
     (let n = (of_char c :: nat) in
      if 48 \<le> n \<and> n \<le> 57 then Some (n - 48)
      else if 97 \<le> n \<and> n \<le> 102 then Some (n - 87)
      else if 65 \<le> n \<and> n \<le> 70 then Some (n - 55)
      else None)"

fun hex_value :: "nat \<Rightarrow> string \<Rightarrow> nat option" where
  "hex_value acc [] = Some acc"
| "hex_value acc (c # cs) =
     (case hex_digit c of None \<Rightarrow> None | Some d \<Rightarrow> hex_value (16 * acc + d) cs)"

definition castObjectId :: "string \<Rightarrow> objid option" where
  "castObjectId s = (if length s = 24 then hex_value 0 s else None)"

definition cast_error :: "string \<Rightarrow> js_error" where
  "cast_error s = \<lparr>name = ''CastError'', code = NoCode,
     message = ''Cast to ObjectId failed for value '' @ s\<rparr>"

definition validation_error :: "string \<Rightarrow> js_error" where
  "validation_error m = \<lparr>name = ''ValidationError'', code = NoCode, message = m\<rparr>"

definition type_error :: "string \<Rightarrow> js_error" where
  "type_error m = \<lparr>name = ''TypeError'', code = NoCode, message = m\<rparr>"

text \<open>
  The database: one collection per model, each a list of documents under their
  identifiers, and the next identifier a new document gets.
\<close>

record db =
  categories :: "(objid \<times> category) list"
  products :: "(objid \<times> product) list"
  orderItems :: "(objid \<times> orderItem) list"
  orders :: "(objid \<times> order) list"
  users :: "(objid \<times> user) list"
  nextId :: objid

text \<open>
  \<open>Model.findById\<close>: an absent argument (\<open>undefined\<close>) finds nothing, a malformed one
  rejects, a well-formed one resolves to the document under it or to \<open>null\<close>.
\<close>

definition findById :: "(objid \<times> 'a) list \<Rightarrow> string option \<Rightarrow> js_error + (objid \<times> 'a) option" where
  "findById coll arg =
     (case arg of
        None \<Rightarrow> Inr None
      | Some s \<Rightarrow>
          (case castObjectId s of
             None \<Rightarrow> Inl (cast_error s)
           | Some i \<Rightarrow> Inr (map_option (\<lambda>x. (i, x)) (map_of coll i))))"

definition countDocuments :: "(objid \<times> 'a) list \<Rightarrow> nat" where
  "countDocuments coll = length coll"

definition failure :: "string \<Rightarrow> json" where
  "failure m = JObj [(''success'', JBool False), (''message'', JStr m)]"

definition failure_error :: "js_error \<Rightarrow> json" where
  "failure_error e = JObj [(''success'', JBool False), (''error'', JStr (message e))]"

definition success :: "string \<Rightarrow> json" where
  "success m = JObj [(''success'', JBool True), (''message'', JStr m)]"

section \<open>Reading one document and counting (routers/*.js)\<close>

text \<open>
  \<open>GET /:id\<close> of products and orders: the not-found branch answers 404 and does not
  return, so \<open>res.send\<close> runs after it. The documents a \<open>populate\<close> would inline in
  the body are left as their identifiers.
\<close>

definition products_get_by_id :: "db \<Rightarrow> string \<Rightarrow> res" where
  "products_get_by_id d i =
     (case findById (products d) (Some i) of
        Inl e \<Rightarrow> throw e res0
      | Inr found \<Rightarrow>
          (let r = (if found = None then send 404 (failure ''Product not found'') res0 else res0)
           in res_send (case found of None \<Rightarrow> JNull | Some (k, p) \<Rightarrow> JDoc (ProductDoc k p)) r))"

definition orders_get_by_id :: "db \<Rightarrow> string \<Rightarrow> res" where
  "orders_get_by_id d i =
     (case findById (orders d) (Some i) of
        Inl e \<Rightarrow> throw e res0
      | Inr found \<Rightarrow>
          (let r = (if found = None then send 404 (failure ''Order not found'') res0 else res0)
           in res_send (case found of None \<Rightarrow> JNull | Some (k, p) \<Rightarrow> JDoc (OrderDoc k p)) r))"

text \<open>\<open>GET /:id\<close> of categories: a promise chain with a \<open>catch\<close>.\<close>

definition categories_get_by_id :: "db \<Rightarrow> string \<Rightarrow> res" where
  "categories_get_by_id d i =
     (case findById (categories d) (Some i) of
        Inl e \<Rightarrow> send 500 (failure_error e) res0
      | Inr None \<Rightarrow> send 404 (failure ''Category not found'') res0
      | Inr (Some (k, c)) \<Rightarrow> send 200 (JObj [(''category'', JDoc (CategoryDoc k c))]) res0)"

text \<open>\<open>GET /get/count\<close>: \<open>!count\<close> holds for the count 0, and the branch does not return.\<close>

definition get_count :: "string \<Rightarrow> nat \<Rightarrow> res" where
  "get_count what n =
     (let r = (if n = 0 then send 500 (failure (what @ '' not found'')) res0 else res0)
      in res_send (JObj [(''count'', JNum (int n))]) r)"

definition products_get_count :: "db \<Rightarrow> res" where
  "products_get_count d = get_count ''Products'' (countDocuments (products d))"

definition users_get_count :: "db \<Rightarrow> res" where
  "users_get_count d = get_count ''Users'' (countDocuments (users d))"

definition orders_get_count :: "db \<Rightarrow> res" where
  "orders_get_count d = get_count ''Orders'' (countDocuments (orders d))"

section \<open>Request bodies\<close>

text \<open>
  A field of a request body: absent, \<open>null\<close>, or a value of the type the schema
  declares for it. (In a JSON body a value of another type, which Mongoose casts or
  refuses, is not modelled.)
\<close>

datatype 'a field = Absent | Null | Given 'a

definition given :: "'a field \<Rightarrow> 'a option" where
  "given v = (case v of Given x \<Rightarrow> Some x | _ \<Rightarrow> None)"

text \<open>A schema default fills an absent field only; \<open>null\<close> is stored as \<open>null\<close>.\<close>

definition with_default :: "'a \<Rightarrow> 'a field \<Rightarrow> 'a option" where
  "with_default dflt v = (case v of Absent \<Rightarrow> Some dflt | Null \<Rightarrow> None | Given x \<Rightarrow> Some x)"

text \<open>\<open>null\<close> as an operand of \<open>*\<close> is the number 0.\<close>

definition to_number :: "number option \<Rightarrow> number" where
  "to_number v = (case v of None \<Rightarrow> int_num 0 | Some x \<Rightarrow> x)"

section \<open>Creating a product (routers/products.js)\<close>

text \<open>
  The request as the handler of \<open>POST /\<close> reads it: the body's fields, the file the
  upload middleware stored (\<open>req.file\<close>), and the protocol and host the image address
  is built from. A product is created from a multipart form, whose fields are texts.
  A text field is absent (\<open>None\<close>) or holds its text; for the category, \<open>None\<close> is also
  the \<open>null\<close> of a JSON body. A number field is absent, or empty (\<open>Null\<close>: Mongoose
  casts the empty text to \<open>null\<close>), or holds the number its text denotes, which is
  \<open>NaN\<close> when the text denotes none.
\<close>

record product_body =
  pb_name :: "string option"
  pb_description :: "string option"
  pb_richDescription :: "string option"
  pb_images :: "string list option"
  pb_brand :: "string option"
  pb_price :: "number field"
  pb_category :: "string option"
  pb_countInStock :: "number field"
  pb_rating :: "number field"
  pb_isFeatured :: "string option"

record product_req =
  pr_body :: product_body
  pr_file :: "string option"
  pr_protocol :: string
  pr_host :: string

definition required_str :: "string option \<Rightarrow> bool" where
  "required_str v = (case v of None \<Rightarrow> False | Some s \<Rightarrow> s \<noteq> [])"

definition or_default :: "'a \<Rightarrow> 'a option \<Rightarrow> 'a" where
  "or_default dflt v = (case v of None \<Rightarrow> dflt | Some x \<Rightarrow> x)"

text \<open>
  \<open>new Product(...)\<close> followed by the validation of \<open>save\<close>, for a category that has
  been cast to \<open>c\<close>: the schema's required fields, the numbers (a \<open>NaN\<close> is not cast),
  the texts a boolean is read from, the bounds of \<open>countInStock\<close> and the defaults.
\<close>

definition not_cast :: "number field \<Rightarrow> bool" where
  "not_cast v = (case v of Given x \<Rightarrow> isNaN x | _ \<Rightarrow> False)"

definition castBoolean :: "string \<Rightarrow> bool option" where
  "castBoolean s =
     (if s \<in> set [''true'', ''1'', ''yes''] then Some True
      else if s \<in> set [''false'', ''0'', ''no''] then Some False
      else None)"

definition new_product :: "product_body \<Rightarrow> string \<Rightarrow> objid \<Rightarrow> js_error + product" where
  "new_product b img c =
     (if \<not> required_str (pb_name b) then Inl (validation_error ''Path name is required.'')
      else if \<not> required_str (pb_description b)
        then Inl (validation_error ''Path description is required.'')
      else if not_cast (pb_price b) then Inl (validation_error ''Cast to Number failed at path price'')
      else if not_cast (pb_rating b) then Inl (validation_error ''Cast to Number failed at path rating'')
      else if (case pb_isFeatured b of None \<Rightarrow> False | Some s \<Rightarrow> castBoolean s = None)
        then Inl (validation_error ''Cast to Boolean failed at path isFeatured'')
      else (case given (pb_countInStock b) of
              None \<Rightarrow> Inl (validation_error ''Path countInStock is required.'')
            | Some n \<Rightarrow>
                if isNaN n then Inl (validation_error ''Cast to Number failed at path countInStock'')
                else if num_lt n (int_num 0)
                  then Inl (validation_error ''Path countInStock is less than minimum allowed value (0).'')
                else if num_lt (int_num 255) n
                  then Inl (validation_error ''Path countInStock is more than maximum allowed value (255).'')
                else Inr \<lparr>prod_name = or_default [] (pb_name b),
                          prod_description = or_default [] (pb_description b),
                          richDescription = or_default [] (pb_richDescription b),
                          image_url = img,
                          images = or_default [] (pb_images b),
                          brand = or_default [] (pb_brand b),
                          price = with_default (int_num 0) (pb_price b),
                          prod_category = c,
                          countInStock = n,
                          rating = with_default (int_num 0) (pb_rating b),
                          isFeatured =
                            (case pb_isFeatured b of
                               None \<Rightarrow> False
                             | Some s \<Rightarrow> or_default False (castBoolean s))\<rparr>))"

definition products_post :: "db \<Rightarrow> product_req \<Rightarrow> db \<times> res" where
  "products_post d req =
     (case findById (categories d) (pb_category (pr_body req)) of
        Inl e \<Rightarrow> (d, throw e res0)
      | Inr None \<Rightarrow> (d, send 400 (JStr ''Invalid Category'') res0)
      | Inr (Some (c, _)) \<Rightarrow>
          (case pr_file req of
             None \<Rightarrow> (d, send 400 (JStr ''No image in the request'') res0)
           | Some fileName \<Rightarrow>
               (let basePath = pr_protocol req @ ''://'' @ pr_host req @ ''/public/uploads/''
                in case new_product (pr_body req) (basePath @ fileName) c of
                     Inl e \<Rightarrow> (d\<lparr>nextId := Suc (nextId d)\<rparr>, throw e res0)
                   | Inr p \<Rightarrow>
                       (d\<lparr>products := AList.update (nextId d) p (products d),
                          nextId := Suc (nextId d)\<rparr>,
                        res_send (JDoc (ProductDoc (nextId d) p)) res0))))"

text \<open>
  The upload middleware \<open>uploadOptions.single("image")\<close> runs before the handler. For
  an uploaded file it asks \<open>storage.filename\<close> for a name; when that refuses the type,
  the error goes to the error middleware and the handler does not run. \<open>stamp\<close> is the
  text of \<open>Date.now()\<close>.
\<close>

record uploaded =
  originalname :: string
  mimetype :: string

record product_request =
  rq_body :: product_body
  rq_upload :: "uploaded option"
  rq_protocol :: string
  rq_host :: string

definition FILE_TYPE_MAP :: "(string \<times> string) list" where
  "FILE_TYPE_MAP =
     [(''image/png'', ''png''), (''image/jpeg'', ''jpg''), (''image/jpg'', ''jpg''),
      (''image/gif'', ''gif''), (''image/webp'', ''webp''), (''image/svg+xml'', ''svg'')]"

definition invalid_image_type :: js_error where
  "invalid_image_type = \<lparr>name = ''Error'', code = NoCode, message = ''Invalid image type''\<rparr>"

definition storage_filename :: "string \<Rightarrow> uploaded \<Rightarrow> js_error + string" where
  "storage_filename stamp file =
     (let fileName = hd (split CHR ''.'' (originalname file))
      in case map_of FILE_TYPE_MAP (mimetype file) of
           None \<Rightarrow> Inl invalid_image_type
         | Some fileExtension \<Rightarrow> Inr (fileName @ ''-'' @ stamp @ ''.'' @ fileExtension))"

text \<open>\<open>next(err)\<close>: the error middleware answers.\<close>

definition next_error :: "js_error \<Rightarrow> res" where
  "next_error e = send (code_of (errorHandler e)) (body (errorHandler e)) res0"

definition products_post_route :: "string \<Rightarrow> db \<Rightarrow> product_request \<Rightarrow> db \<times> res" where
  "products_post_route stamp d rq =
     (case rq_upload rq of
        None \<Rightarrow>
          products_post d \<lparr>pr_body = rq_body rq, pr_file = None,
                            pr_protocol = rq_protocol rq, pr_host = rq_host rq\<rparr>
      | Some file \<Rightarrow>
          (case storage_filename stamp file of
             Inl e \<Rightarrow> (d, next_error e)
           | Inr fileName \<Rightarrow>
               products_post d \<lparr>pr_body = rq_body rq, pr_file = Some fileName,
                                 pr_protocol = rq_protocol rq, pr_host = rq_host rq\<rparr>))"

section \<open>Orders (routers/orders.js)\<close>

record item_body =
  ib_quantity :: "number field"
  ib_product :: "string field"

record order_body =
  ob_orderItems :: "item_body list field"
  ob_shippingAddress1 :: "string field"
  ob_shippingAddress2 :: "string field"
  ob_city :: "string field"
  ob_zip :: "string field"
  ob_country :: "string field"
  ob_phone :: "string field"
  ob_status :: "string field"
  ob_user :: "string field"
  ob_dateOrdered :: "nat field"

text \<open>
  \<open>new OrderItem(...)\<close> and the validation of its \<open>save\<close>: both fields are required,
  the quantity is a number other than \<open>NaN\<close>, the product an identifier.
\<close>

definition new_order_item :: "item_body \<Rightarrow> js_error + orderItem" where
  "new_order_item ib =
     (case given (ib_quantity ib) of
        None \<Rightarrow> Inl (validation_error ''Path quantity is required.'')
      | Some q \<Rightarrow>
          if isNaN q then Inl (validation_error ''Cast to Number failed at path quantity'')
          else (case given (ib_product ib) of
                  None \<Rightarrow> Inl (validation_error ''Path product is required.'')
                | Some s \<Rightarrow>
                    (case castObjectId s of
                       None \<Rightarrow> Inl (validation_error ''Cast to ObjectId failed at path product'')
                     | Some p \<Rightarrow> Inr \<lparr>quantity = q, item_product = p\<rparr>)))"

text \<open>
  The first \<open>map\<close> of \<open>POST /\<close>: every submitted item gets an identifier and is saved
  when it is valid; the saves are started for all items, so an invalid item does not
  keep the others from being stored.
\<close>

fun save_items :: "db \<Rightarrow> item_body list \<Rightarrow> db \<times> (js_error + objid) list" where
  "save_items d [] = (d, [])"
| "save_items d (ib # ibs) =
     (case new_order_item ib of
        Inl e \<Rightarrow>
          (case save_items (d\<lparr>nextId := Suc (nextId d)\<rparr>) ibs of
             (d', rs) \<Rightarrow> (d', Inl e # rs))
      | Inr it \<Rightarrow>
          (case save_items (d\<lparr>orderItems := AList.update (nextId d) it (orderItems d),
                               nextId := Suc (nextId d)\<rparr>) ibs of
             (d', rs) \<Rightarrow> (d', Inr (nextId d) # rs)))"

text \<open>\<open>Promise.all\<close>: the values in order, or the first rejection.\<close>

fun promise_all :: "(js_error + 'a) list \<Rightarrow> js_error + 'a list" where
  "promise_all [] = Inr []"
| "promise_all (Inl e # rs) = Inl e"
| "promise_all (Inr x # rs) = (case promise_all rs of Inl e \<Rightarrow> Inl e | Inr xs \<Rightarrow> Inr (x # xs))"

text \<open>
  The second \<open>map\<close>: the saved item is read back with its product populated, and
  \<open>orderItem.product.price * orderItem.quantity\<close> throws when the product is \<open>null\<close>;
  a price that is \<open>null\<close> counts as 0.
\<close>

definition item_price :: "db \<Rightarrow> objid \<Rightarrow> js_error + number" where
  "item_price d i =
     (case map_of (orderItems d) i of
        None \<Rightarrow> Inl (type_error ''Cannot read properties of null (reading product)'')
      | Some it \<Rightarrow>
          (case map_of (products d) (item_product it) of
             None \<Rightarrow> Inl (type_error ''Cannot read properties of null (reading price)'')
           | Some p \<Rightarrow> Inr (num_mul (to_number (price p)) (quantity it))))"

definition status_enum :: "string list" where
  "status_enum = [''Pending'', ''Shipped'', ''Delivered'', ''Cancelled'']"

text \<open>
  \<open>new Order(...)\<close> and the validation of its \<open>save\<close>: the required address fields,
  the enumeration of \<open>status\<close> (which a \<open>null\<close> passes) and its default, the total (a
  \<open>NaN\<close> is not cast), the cast of \<open>user\<close>, the default of \<open>dateOrdered\<close> (\<open>now\<close>).
\<close>

definition new_order :: "nat \<Rightarrow> order_body \<Rightarrow> objid list \<Rightarrow> number \<Rightarrow> js_error + order" where
  "new_order now b ids sum_price =
     (if \<not> required_str (given (ob_shippingAddress1 b))
        then Inl (validation_error ''Path shippingAddress1 is required.'')
      else if \<not> required_str (given (ob_city b))
        then Inl (validation_error ''Path city is required.'')
      else if \<not> required_str (given (ob_zip b))
        then Inl (validation_error ''Path zip is required.'')
      else if \<not> required_str (given (ob_country b))
        then Inl (validation_error ''Path country is required.'')
      else if \<not> required_str (given (ob_phone b))
        then Inl (validation_error ''Path phone is required.'')
      else if (case ob_status b of Given s \<Rightarrow> s \<notin> set status_enum | _ \<Rightarrow> False)
        then Inl (validation_error ''Path status is not a valid enum value.'')
      else if isNaN sum_price
        then Inl (validation_error ''Cast to Number failed at path totalPrice'')
      else if (case given (ob_user b) of None \<Rightarrow> False | Some s \<Rightarrow> castObjectId s = None)
        then Inl (validation_error ''Cast to ObjectId failed at path user'')
      else Inr \<lparr>order_items = ids,
                shippingAddress1 = or_default [] (given (ob_shippingAddress1 b)),
                shippingAddress2 = with_default [] (ob_shippingAddress2 b),
                city = or_default [] (given (ob_city b)),
                zipCode = or_default [] (given (ob_zip b)),
                country = or_default [] (given (ob_country b)),
                phone = or_default [] (given (ob_phone b)),
                status = with_default ''Pending'' (ob_status b),
                totalPrice = sum_price,
                user = (case given (ob_user b) of None \<Rightarrow> None | Some s \<Rightarrow> castObjectId s),
                dateOrdered = with_default now (ob_dateOrdered b)\<rparr>)"

text \<open>
  \<open>POST /\<close>. \<open>req.body.orderItems.map\<close> throws when the field is absent or \<open>null\<close>; the
  total is the \<open>reduce\<close> of the prices with \<open>+\<close> from \<open>0\<close>.
\<close>

definition orders_post :: "nat \<Rightarrow> db \<Rightarrow> order_body \<Rightarrow> db \<times> res" where
  "orders_post now d b =
     (case ob_orderItems b of
        Absent \<Rightarrow> (d, throw (type_error ''Cannot read properties of undefined (reading map)'') res0)
      | Null \<Rightarrow> (d, throw (type_error ''Cannot read properties of null (reading map)'') res0)
      | Given items \<Rightarrow>
          (case save_items d items of
             (d1, saved) \<Rightarrow>
               (case promise_all saved of
                  Inl e \<Rightarrow> (d1, throw e res0)
                | Inr orderItemIds \<Rightarrow>
                    (case promise_all (map (item_price d1) orderItemIds) of
                       Inl e \<Rightarrow> (d1, throw e res0)
                     | Inr prices \<Rightarrow>
                         (let totalPriceSum = foldl num_add (int_num 0) prices;
                              d2 = d1\<lparr>nextId := Suc (nextId d1)\<rparr>
                          in case new_order now b orderItemIds totalPriceSum of
                               Inl e \<Rightarrow>
                                 (d2, send 500 (JObj [(''error'', JStr (message e)),
                                                      (''success'', JBool False)]) res0)
                             | Inr ord \<Rightarrow>
                                 (d2\<lparr>orders := AList.update (nextId d1) ord (orders d2)\<rparr>,
                                  send 201 (JDoc (OrderDoc (nextId d1) ord)) res0))))))"

text \<open>
  \<open>PUT /:id\<close>: \<open>findByIdAndUpdate\<close> writes the submitted status as it is, a \<open>null\<close>
  too (update validators are off unless \<open>runValidators\<close> is set, and the call does not
  set it); an absent status leaves the document as it was.
\<close>

definition orders_put :: "db \<Rightarrow> string \<Rightarrow> string field \<Rightarrow> db \<times> res" where
  "orders_put d i new_status =
     (case findById (orders d) (Some i) of
        Inl e \<Rightarrow> (d, throw e res0)
      | Inr None \<Rightarrow> (d, send 400 (failure ''Order not found'') res0)
      | Inr (Some (k, ord)) \<Rightarrow>
          (let ord' = (case new_status of
                         Absent \<Rightarrow> ord
                       | Null \<Rightarrow> ord\<lparr>status := None\<rparr>
                       | Given s \<Rightarrow> ord\<lparr>status := Some s\<rparr>)
           in (d\<lparr>orders := AList.update k ord' (orders d)\<rparr>,
               res_send (JDoc (OrderDoc k ord')) res0)))"

text \<open>
  \<open>DELETE /:id\<close>: the order is removed, then a removal is issued for every identifier
  of its \<open>orderItems\<close>, and the answer does not wait for them.
\<close>

definition orders_delete :: "db \<Rightarrow> string \<Rightarrow> db \<times> res" where
  "orders_delete d i =
     (case findById (orders d) (Some i) of
        Inl e \<Rightarrow> (d, send 500 (failure_error e) res0)
      | Inr None \<Rightarrow> (d, send 404 (failure ''Order not found'') res0)
      | Inr (Some (k, ord)) \<Rightarrow>
          (d\<lparr>orders := AList.delete k (orders d),
             orderItems := fold AList.delete (order_items ord) (orderItems d)\<rparr>,
           send 200 (success ''Order deleted successfully'') res0))"

section \<open>The authentication gate (helpers/jwt.js)\<close>

text \<open>
  A request as the gate and the router see it: the method, the path of the original
  URL, and the bearer token if the request carries one. Of a token only what
  \<open>express-jwt\<close> decides on is kept: whether its HS256 signature verifies, whether it has
  expired, and the \<open>isAdmin\<close> field of its payload.
\<close>

record token =
  signature_valid :: bool
  expired :: bool
  payload_isAdmin :: bool

record request =
  req_method :: string
  req_path :: string
  bearer :: "token option"

definition isRevoked :: "token \<Rightarrow> bool" where
  "isRevoked t = (if \<not> payload_isAdmin t then True else False)"

definition unauthorized :: "string \<Rightarrow> string \<Rightarrow> js_error" where
  "unauthorized c m = \<lparr>name = ''UnauthorizedError'', code = StrCode c, message = m\<rparr>"

text \<open>
  \<open>expressJwt({secret, algorithms, isRevoked})\<close>, the middleware of the
  \<open>express-jwt\<close> library: it passes the request on (\<open>None\<close>) or hands an
  \<open>UnauthorizedError\<close> to the error middleware, for a missing token, for a token that
  does not verify, and for a token \<open>isRevoked\<close> rejects.
\<close>

definition expressJwt :: "request \<Rightarrow> js_error option" where
  "expressJwt req =
     (case bearer req of
        None \<Rightarrow> Some (unauthorized ''credentials_required'' ''No authorization token was found'')
      | Some t \<Rightarrow>
          if \<not> signature_valid t then Some (unauthorized ''invalid_token'' ''invalid signature'')
          else if expired t then Some (unauthorized ''invalid_token'' ''jwt expired'')
          else if isRevoked t then Some (unauthorized ''revoked_token'' ''The token has been revoked.'')
          else None)"

text \<open>
  The \<open>unless\<close> list, read as \<open>express-unless\<close> reads it. Each regular expression
  of the source is unanchored and ends in \<open>(.*)\<close>, so it matches exactly the paths
  that contain its literal part, and its entry also names the methods; a string entry
  matches the path it equals, for every method.
\<close>

datatype unless_entry = Containing string "string list" | Exactly string

definition unless_paths :: "string \<Rightarrow> unless_entry list" where
  "unless_paths api =
     [Containing ''/api-docs'' [''GET'', ''OPTIONS''],
      Containing ''/public/uploads'' [''GET'', ''OPTIONS''],
      Containing ''/api/v1/products'' [''GET'', ''OPTIONS''],
      Containing ''/api/v1/categories'' [''GET'', ''OPTIONS''],
      Exactly (api @ ''/users/login''),
      Exactly (api @ ''/users/regiseter'')]"

fun unless_match :: "request \<Rightarrow> unless_entry \<Rightarrow> bool" where
  "unless_match req (Containing u ms) = (includes_str (req_path req) u \<and> req_method req \<in> set ms)"
| "unless_match req (Exactly u) = (req_path req = u)"

definition allow_listed :: "string \<Rightarrow> request \<Rightarrow> bool" where
  "allow_listed api req = list_ex (unless_match req) (unless_paths api)"

definition authJwt :: "string \<Rightarrow> request \<Rightarrow> js_error option" where
  "authJwt api req = (if allow_listed api req then None else expressJwt req)"

section \<open>The routers and the application (routers/*.js, app.js)\<close>

text \<open>The routes of each router, as (method, path) in the order they are registered.\<close>

definition products_routes :: "(string \<times> string) list" where
  "products_routes =
     [(''get'', ''/''), (''get'', ''/:id''), (''get'', ''/get/count''),
      (''get'', ''/get/featured/:count''), (''post'', ''/''), (''delete'', ''/:id''),
      (''put'', ''/:id''), (''put'', ''/gallery-images/:id'')]"

definition categories_routes :: "(string \<times> string) list" where
  "categories_routes =
     [(''get'', ''/''), (''get'', ''/:id''), (''post'', ''/''), (''put'', ''/:id''),
      (''delete'', ''/:id'')]"

definition orders_routes :: "(string \<times> string) list" where
  "orders_routes =
     [(''get'', ''/''), (''get'', ''/:id''), (''get'', ''/get/count''),
      (''get'', ''/get/totalsales''), (''get'', ''/get/status/:status''),
      (''get'', ''/get/userorders/:userId''), (''post'', ''/''), (''put'', ''/:id''),
      (''delete'', ''/:id'')]"

definition users_routes :: "(string \<times> string) list" where
  "users_routes =
     [(''get'', ''/''), (''get'', ''/:id''), (''get'', ''/get/count''), (''post'', ''/''),
      (''post'', ''/login''), (''put'', ''/:id''), (''delete'', ''/:id'')]"

text \<open>The routers in the order \<open>app.js\<close> mounts them, each with its file name.\<close>

definition routers :: "(string \<times> (string \<times> string) list) list" where
  "routers = [(''products'', products_routes), (''categories'', categories_routes),
              (''orders'', orders_routes), (''users'', users_routes)]"

text \<open>
  Express matching: a path is its segments between slashes, one trailing slash does
  not count, a \<open>:name\<close> segment of a route takes any non-empty segment, and letters are
  compared without case.
\<close>

definition path_segments :: "string \<Rightarrow> string list" where
  "path_segments p =
     (let segs = tl (split CHR ''/'' p)
      in if segs \<noteq> [] \<and> last segs = [] then butlast segs else segs)"

definition segment_matches :: "string \<Rightarrow> string \<Rightarrow> bool" where
  "segment_matches pat seg =
     (if startsWith pat '':'' then seg \<noteq> [] else toLowerCase pat = toLowerCase seg)"

definition route_matches :: "string \<Rightarrow> string list \<Rightarrow> bool" where
  "route_matches route segs = list_all2 segment_matches (path_segments route) segs"

text \<open>
  A router mounted at \<open>mount\<close>: the first registered route whose path matches what
  follows the mount path and whose method is the request's. A \<open>HEAD\<close> request is
  given to the \<open>GET\<close> route when the route registers no \<open>HEAD\<close> handler, and no route
  of these routers does.
\<close>

definition route_method :: "string \<Rightarrow> string" where
  "route_method m = (if toLowerCase m = ''head'' then ''get'' else toLowerCase m)"

definition mounted_at :: "string \<Rightarrow> string list \<Rightarrow> bool" where
  "mounted_at mount segs =
     (let m = path_segments mount
      in length m \<le> length segs \<and> list_all2 segment_matches m (take (length m) segs))"

definition router_dispatch :: "string \<Rightarrow> (string \<times> string) list \<Rightarrow> request \<Rightarrow> (string \<times> string) option" where
  "router_dispatch mount routes req =
     (let segs = path_segments (req_path req)
      in if mounted_at mount segs
         then find (\<lambda>(meth, route). meth = route_method (req_method req) \<and>
                      route_matches route (drop (length (path_segments mount)) segs)) routes
         else None)"

text \<open>
  What becomes of a request in \<open>app.js\<close>. \<open>cors()\<close> comes first and, with its
  default options, answers every \<open>OPTIONS\<close> request itself (204) and passes every other
  request on. The routers are mounted next, the gate after them, then the error
  middleware, then the documentation: a request that a route takes is answered by its
  handler and goes no further; any other request meets the gate, and a rejection is
  answered by the error middleware. Logging answers no request. A body that
  \<open>express.json()\<close> cannot parse is answered by the error middleware before any
  route: requests are taken to carry a well-formed body. The files \<open>express.static\<close>
  serves from \<open>/public/uploads\<close> are not modelled: the directory is taken to be
  empty.
\<close>

datatype outcome =
    Preflight
  | Handled string string string
  | Rejected response
  | Documentation
  | NoRoute

fun first_router :: "string \<Rightarrow> (string \<times> (string \<times> string) list) list \<Rightarrow> request \<Rightarrow> outcome option" where
  "first_router api [] req = None"
| "first_router api ((file, routes) # rs) req =
     (case router_dispatch (api @ ''/'' @ file) routes req of
        Some (meth, route) \<Rightarrow> Some (Handled file meth route)
      | None \<Rightarrow> first_router api rs req)"

definition app :: "string \<Rightarrow> request \<Rightarrow> outcome" where
  "app api req =
     (if toUpperCase (req_method req) = ''OPTIONS'' then Preflight
      else (case first_router api routers req of
              Some h \<Rightarrow> h
            | None \<Rightarrow>
                (case authJwt api req of
                   Some e \<Rightarrow> Rejected (errorHandler e)
                 | None \<Rightarrow>
                     if mounted_at ''/api-docs'' (path_segments (req_path req))
                     then Documentation else NoRoute)))"

section \<open>The route documentation (utils/swagger-route-generator.js)\<close>

definition capitalize :: "string \<Rightarrow> string" where
  "capitalize p = (case p of [] \<Rightarrow> [] | c # cs \<Rightarrow> toUpperCase_char c # cs)"

text \<open>\<open>.replace(/^\/|\/$/g, '')\<close>: one leading and one trailing slash are dropped.\<close>

definition strip_slashes :: "string \<Rightarrow> string" where
  "strip_slashes s =
     (let s1 = (if startsWith s ''/'' then tl s else s)
      in if endsWith s1 ''/'' then butlast s1 else s1)"

definition replace_char :: "char \<Rightarrow> char \<Rightarrow> string \<Rightarrow> string" where
  "replace_char a b s = map (\<lambda>c. if c = a then b else c) s"

definition pathParts :: "string \<Rightarrow> string list" where
  "pathParts routePath =
     filter (\<lambda>p. p \<noteq> [])
       (split CHR ''_''
         (replace_char CHR ''-'' CHR ''_''
           (filter (\<lambda>c. c \<noteq> CHR '':'')
             (replace_char CHR ''/'' CHR ''_'' (strip_slashes routePath)))))"

definition generateOperationId :: "string \<Rightarrow> string \<Rightarrow> string" where
  "generateOperationId routePath method =
     (let parts = pathParts routePath; methodPrefix = toLowerCase method
      in if length parts = 0 then methodPrefix @ ''Root''
         else if ''get'' \<in> set parts \<and> length parts > 1
           then methodPrefix @ capitalize (parts ! 1)
         else methodPrefix @ concat (hd parts # map capitalize (tl parts)))"

text \<open>\<open>path.basename(routerFile, '.js')\<close> with its first letter in upper case.\<close>

definition basename_js :: "string \<Rightarrow> string" where
  "basename_js f = (if endsWith f ''.js'' then take (length f - 3) f else f)"

definition generateTag :: "string \<Rightarrow> string" where
  "generateTag routerFile = capitalize (basename_js routerFile)"

text \<open>\<open>/:([^\/]+)/g\<close>: a colon and the characters after it up to the next slash.\<close>

fun param_names :: "string option \<Rightarrow> string \<Rightarrow> string list" where
  "param_names None [] = []"
| "param_names (Some nm) [] = [nm]"
| "param_names None (c # cs) =
     (if c = CHR '':''
      then (case cs of
              [] \<Rightarrow> []
            | d # ds \<Rightarrow> if d = CHR ''/'' then param_names None cs else param_names (Some [d]) ds)
      else param_names None cs)"
| "param_names (Some nm) (c # cs) =
     (if c = CHR ''/'' then nm # param_names None cs else param_names (Some (nm @ [c])) cs)"

definition extractPathParams :: "string \<Rightarrow> json list" where
  "extractPathParams routePath =
     map (\<lambda>nm. JObj [(''name'', JStr nm), (''in'', JStr ''path''), (''required'', JBool True),
                      (''schema'', JObj [(''type'', JStr ''string'')])])
       (param_names None routePath)"

definition schema_ref :: "string \<Rightarrow> json" where
  "schema_ref n = JObj [(''$ref'', JStr (''#/components/schemas/'' @ n))]"

definition json_content :: "json \<Rightarrow> json" where
  "json_content schema = JObj [(''application/json'', JObj [(''schema'', schema)])]"

definition response_of :: "string \<Rightarrow> json \<Rightarrow> json" where
  "response_of descr schema = JObj [(''description'', JStr descr), (''content'', json_content schema)]"

definition singular :: "string \<Rightarrow> string" where
  "singular tag = (if endsWith tag ''s'' then butlast tag else tag)"

definition count_schema :: json where
  "count_schema =
     JObj [(''type'', JStr ''object''),
           (''properties'', JObj [(''count'', JObj [(''type'', JStr ''integer''), (''example'', JNum 42)])])]"

definition deleted_schema :: "string \<Rightarrow> json" where
  "deleted_schema singularTag =
     JObj [(''type'', JStr ''object''),
           (''properties'',
              JObj [(''success'', JObj [(''type'', JStr ''boolean''), (''example'', JBool True)]),
                    (''message'', JObj [(''type'', JStr ''string''),
                                        (''example'', JStr (singularTag @ '' deleted successfully''))])])]"

definition login_schema :: json where
  "login_schema =
     JObj [(''type'', JStr ''object''),
           (''properties'',
              JObj [(''user'', JObj [(''type'', JStr ''string''), (''example'', JStr ''user@example.com'')]),
                    (''token'', JObj [(''type'', JStr ''string''),
                                      (''example'', JStr ''eyJhbGciOiJIUzI1...'')])])]"

definition successResponse :: "string \<Rightarrow> string \<Rightarrow> string \<Rightarrow> json" where
  "successResponse routePath method tag =
     (let singularTag = singular tag
      in if method = ''get'' \<and> (routePath = ''/'' \<or> routePath = [])
           then response_of (''List of '' @ tag)
                  (JObj [(''type'', JStr ''array''), (''items'', schema_ref singularTag)])
         else if method = ''get'' \<and> includes_str routePath ''/:id''
           then response_of (singularTag @ '' details'') (schema_ref singularTag)
         else if method = ''get'' \<and> includes_str routePath ''/count''
           then response_of (singularTag @ '' count'') count_schema
         else if method = ''post'' \<and> (routePath = ''/'' \<or> routePath = [])
           then response_of (''Created '' @ singularTag) (schema_ref singularTag)
         else if method = ''put'' \<and> includes_str routePath ''/:id''
           then response_of (''Updated '' @ singularTag) (schema_ref singularTag)
         else if method = ''delete'' \<and> includes_str routePath ''/:id''
           then response_of (singularTag @ '' deleted'') (deleted_schema singularTag)
         else if method = ''post'' \<and> includes_str routePath ''/login''
           then response_of ''Login successful'' login_schema
         else response_of ''Successful operation'' (JObj []))"

definition determineResponseSchema :: "string \<Rightarrow> string \<Rightarrow> string \<Rightarrow> json" where
  "determineResponseSchema routePath method tag =
     JObj [(''200'', successResponse routePath method tag),
           (''400'', response_of ''Bad request'' (schema_ref ''Error'')),
           (''401'', JObj [(''$ref'', JStr ''#/components/responses/UnauthorizedError'')]),
           (''404'', JObj [(''$ref'', JStr ''#/components/responses/NotFoundError'')]),
           (''500'', response_of ''Server error'' (schema_ref ''Error''))]"

definition determineRequestBody :: "string \<Rightarrow> string \<Rightarrow> string \<Rightarrow> json option" where
  "determineRequestBody routePath method tag =
     (if method = ''get'' \<or> method = ''delete'' then None
      else if tag = ''Products'' \<and>
              (includes_str routePath ''gallery-images'' \<or> method = ''post'' \<or> method = ''put'')
        then Some (JObj [(''content'',
               JObj [(''multipart/form-data'',
                 JObj [(''schema'',
                   JObj [(''type'', JStr ''object''),
                         (''properties'',
                            JObj [(''image'', JObj [(''type'', JStr ''string''),
                                                    (''format'', JStr ''binary''),
                                                    (''description'', JStr ''Product image file'')])])])])])])
      else if includes_str routePath ''/login''
        then Some (JObj [(''required'', JBool True),
               (''content'', json_content
                  (JObj [(''type'', JStr ''object''),
                         (''required'', JArr [JStr ''email'', JStr ''password'']),
                         (''properties'',
                            JObj [(''email'', JObj [(''type'', JStr ''string''),
                                                    (''format'', JStr ''email''),
                                                    (''example'', JStr ''user@example.com'')]),
                                  (''password'', JObj [(''type'', JStr ''string''),
                                                       (''format'', JStr ''password''),
                                                       (''example'', JStr ''password123'')])])]))])
      else Some (JObj [(''required'', JBool True),
                       (''content'', json_content (schema_ref (singular tag)))]))"

text \<open>
  The object \<open>generateSwaggerPaths\<close> builds for one method of one route of the router
  in \<open>routerFile\<close>, and the key it is stored under.
\<close>

definition fullPath :: "string \<Rightarrow> string \<Rightarrow> string" where
  "fullPath routerFile routePath =
     (''/'' @ basename_js routerFile) @ (if routePath = ''/'' then [] else routePath)"

definition pathObj :: "string \<Rightarrow> string \<Rightarrow> string \<Rightarrow> json" where
  "pathObj routerFile routePath method =
     (let tag = generateTag routerFile;
          methodName = toLowerCase method;
          url = fullPath routerFile routePath
      in JObj ([(''tags'', JArr [JStr tag]),
                (''summary'', JStr (toUpperCase methodName @ '' '' @ url)),
                (''description'', JStr (toUpperCase methodName @ '' operation for '' @ url)),
                (''operationId'', JStr (generateOperationId routePath methodName)),
                (''parameters'', JArr (extractPathParams routePath)),
                (''responses'', determineResponseSchema routePath methodName tag)]
               @ (if methodName \<in> set [''post'', ''put'', ''delete'']
                  then [(''security'', JArr [JObj [(''bearerAuth'', JArr [])]])] else [])
               @ (case determineRequestBody routePath methodName tag of
                    None \<Rightarrow> []
                  | Some b \<Rightarrow> [(''requestBody'', b)])))"

definition object_fields :: "json option \<Rightarrow> (string \<times> json) list" where
  "object_fields j = (case j of Some (JObj kvs) \<Rightarrow> kvs | _ \<Rightarrow> [])"

definition add_route :: "string \<Rightarrow> (string \<times> json) list \<Rightarrow> string \<times> string \<Rightarrow> (string \<times> json) list" where
  "add_route routerFile paths r =
     (case r of (method, routePath) \<Rightarrow>
        (let url = fullPath routerFile routePath
         in AList.update url
              (JObj (AList.update (toLowerCase method) (pathObj routerFile routePath method)
                       (object_fields (map_of paths url))))
              paths))"

definition generateSwaggerPaths :: "(string \<times> (string \<times> string) list) list \<Rightarrow> (string \<times> json) list" where
  "generateSwaggerPaths routerFiles =
     foldl (\<lambda>paths (routerFile, routes). foldl (add_route routerFile) paths routes) [] routerFiles"

text \<open>The router files as \<open>readdirSync\<close> lists them, each with the routes of its router.\<close>

definition routerFiles :: "(string \<times> (string \<times> string) list) list" where
  "routerFiles = [(''categories.js'', categories_routes), (''orders.js'', orders_routes),
                  (''products.js'', products_routes), (''users.js'', users_routes)]"

section \<open>The model documentation (utils/swagger-schema-generator.js, swagger.js)\<close>

text \<open>
  A compiled schema path as the generator reads it: the \<open>instance\<close> name of its type,
  its validators, the text of its regular expression, the model its \<open>ref\<close> option
  names, and for an array the model its documents refer to and the type of its
  elements (\<open>caster\<close>).
\<close>

datatype validator = Required | Min int | Max int | Enum "string list" | Custom string

datatype schemaType =
  SchemaType (st_instance: string) (st_validators: "validator list") (st_regExp: "string option")
    (st_ref: "string option") (st_array_ref: "string option") (st_caster: "schemaType option")

definition typeMap :: "(string \<times> json) list" where
  "typeMap =
     [(''String'', JObj [(''type'', JStr ''string'')]),
      (''Number'', JObj [(''type'', JStr ''number'')]),
      (''Date'', JObj [(''type'', JStr ''string''), (''format'', JStr ''date-time'')]),
      (''Boolean'', JObj [(''type'', JStr ''boolean'')]),
      (''ObjectID'', JObj [(''type'', JStr ''string'')]),
      (''Mixed'', JObj [(''type'', JStr ''object'')]),
      (''Buffer'', JObj [(''type'', JStr ''string''), (''format'', JStr ''binary'')]),
      (''Map'', JObj [(''type'', JStr ''object'')]),
      (''Decimal128'', JObj [(''type'', JStr ''number'')])]"

fun convertMongooseTypeToSwagger :: "schemaType \<Rightarrow> (string \<times> json) list" where
  "convertMongooseTypeToSwagger (SchemaType inst vs re rf aref cst) =
     (if inst = ''Array''
      then (case aref of
              Some r \<Rightarrow>
                [(''type'', JStr ''array''),
                 (''items'', JObj [(''type'', JStr ''string''),
                                   (''description'', JStr (''Reference to '' @ r))])]
            | None \<Rightarrow>
                [(''type'', JStr ''array''),
                 (''items'', (case cst of
                                None \<Rightarrow> JObj [(''type'', JStr ''string'')]
                              | Some c \<Rightarrow> JObj (convertMongooseTypeToSwagger c)))])
      else object_fields (Some (case map_of typeMap inst of
                                  None \<Rightarrow> JObj [(''type'', JStr ''string'')]
                                | Some t \<Rightarrow> t)))"

text \<open>One validator's contribution to \<open>fieldInfo\<close>; assigning a key twice keeps its place.\<close>

fun add_validator :: "(string \<times> json) list \<Rightarrow> validator \<Rightarrow> (string \<times> json) list" where
  "add_validator fieldInfo (Min n) = AList.update ''minimum'' (JNum n) fieldInfo"
| "add_validator fieldInfo (Max n) = AList.update ''maximum'' (JNum n) fieldInfo"
| "add_validator fieldInfo (Enum vs) = AList.update ''enum'' (JArr (map JStr vs)) fieldInfo"
| "add_validator fieldInfo v = fieldInfo"

definition fieldInfo :: "schemaType \<Rightarrow> (string \<times> json) list" where
  "fieldInfo st =
     (let f1 = foldl add_validator (convertMongooseTypeToSwagger st) (st_validators st);
          f2 = (case st_regExp st of
                  None \<Rightarrow> f1
                | Some re \<Rightarrow> AList.update ''pattern'' (JStr (butlast (tl re))) f1)
      in case st_ref st of
           None \<Rightarrow> f2
         | Some r \<Rightarrow> AList.update ''description'' (JStr (''Reference to '' @ r @ '' model'')) f2)"

definition add_path :: "(string \<times> json) list \<Rightarrow> string \<times> schemaType \<Rightarrow> (string \<times> json) list" where
  "add_path properties p =
     (case p of (path, st) \<Rightarrow>
        if path = ''__v'' \<or> path = ''_id'' then properties
        else AList.update path (JObj (fieldInfo st)) properties)"

text \<open>A model is its name and, when it has one, the paths of its schema in key order.\<close>

definition extractModelSchema :: "(string \<times> schemaType) list option \<Rightarrow> json option" where
  "extractModelSchema model =
     (case model of
        None \<Rightarrow> None
      | Some paths \<Rightarrow>
          Some (JObj [(''type'', JStr ''object''),
                      (''properties'',
                         JObj (foldl add_path
                                 [(''id'', JObj [(''type'', JStr ''string''),
                                                 (''description'', JStr ''MongoDB ObjectId'')])]
                                 paths))]))"

definition generateSchemasFromModels :: "(string \<times> (string \<times> schemaType) list option) list \<Rightarrow> (string \<times> json) list" where
  "generateSchemasFromModels models =
     foldl (\<lambda>schemas (modelName, model).
              case extractModelSchema model of
                None \<Rightarrow> schemas
              | Some schema \<Rightarrow> AList.update modelName schema schemas) [] models"

text \<open>\<open>components.schemas\<close> of \<open>swagger.js\<close>: the generated schemas, a fallback for each
  of the five models that has none, and the \<open>Error\<close> schema.\<close>

definition fallback_schema :: "(string \<times> string \<times> string) list \<Rightarrow> json" where
  "fallback_schema descrs =
     JObj [(''type'', JStr ''object''),
           (''properties'',
              JObj (map (\<lambda>(n, t, d). (n, JObj [(''type'', JStr t), (''description'', JStr d)])) descrs))]"

definition fallbacks :: "(string \<times> json) list" where
  "fallbacks =
     [(''Product'', fallback_schema [(''id'', ''string'', ''Product ID''),
                                     (''name'', ''string'', ''Product name''),
                                     (''description'', ''string'', ''Product description''),
                                     (''price'', ''number'', ''Product price'')]),
      (''Category'', fallback_schema [(''id'', ''string'', ''Category ID''),
                                      (''name'', ''string'', ''Category name'')]),
      (''User'', fallback_schema [(''id'', ''string'', ''User ID''),
                                  (''name'', ''string'', ''User name''),
                                  (''email'', ''string'', ''User email'')]),
      (''Order'', fallback_schema [(''id'', ''string'', ''Order ID''),
                                   (''status'', ''string'', ''Order status''),
                                   (''totalPrice'', ''number'', ''Total order price'')]),
      (''OrderItem'', fallback_schema [(''id'', ''string'', ''OrderItem ID''),
                                       (''product'', ''string'', ''Product reference''),
                                       (''quantity'', ''number'', ''Quantity'')])]"

definition error_schema :: json where
  "error_schema =
     JObj [(''type'', JStr ''object''),
           (''properties'',
              JObj [(''success'', JObj [(''type'', JStr ''boolean''), (''example'', JBool False)]),
                    (''message'', JObj [(''type'', JStr ''string'')])])]"

definition component_schemas :: "(string \<times> json) list \<Rightarrow> (string \<times> json) list" where
  "component_schemas modelSchemas =
     AList.update ''Error'' error_schema
       (foldl (\<lambda>schemas (n, fb).
                 AList.update n (case map_of modelSchemas n of None \<Rightarrow> fb | Some sch \<Rightarrow> sch) schemas)
          modelSchemas fallbacks)"

text \<open>
  The paths Mongoose compiles from \<open>models/product.js\<close>, \<open>models/category.js\<close>,
  \<open>models/order.js\<close> and \<open>models/orderItem.js\<close>: the declared fields in order, then
  \<open>_id\<close> and \<open>__v\<close>; \<open>required\<close>, \<open>min\<close>, \<open>max\<close> and \<open>enum\<close> become validators.
\<close>

definition plain :: "string \<Rightarrow> validator list \<Rightarrow> schemaType" where
  "plain inst vs = SchemaType inst vs None None None None"

definition reference :: "string \<Rightarrow> validator list \<Rightarrow> schemaType" where
  "reference m vs = SchemaType ''ObjectId'' vs None (Some m) None None"

definition productSchema :: "(string \<times> schemaType) list" where
  "productSchema =
     [(''name'', plain ''String'' [Required]),
      (''description'', plain ''String'' [Required]),
      (''richDescription'', plain ''String'' []),
      (''image'', plain ''String'' []),
      (''images'', SchemaType ''Array'' [] None None None (Some (plain ''String'' []))),
      (''brand'', plain ''String'' []),
      (''price'', plain ''Number'' []),
      (''category'', reference ''Category'' [Required]),
      (''countInStock'', plain ''Number'' [Required, Min 0, Max 255]),
      (''rating'', plain ''Number'' []),
      (''isFeatured'', plain ''Boolean'' []),
      (''dateCreated'', plain ''Date'' []),
      (''_id'', plain ''ObjectId'' []),
      (''__v'', plain ''Number'' [])]"

definition orderSchema :: "(string \<times> schemaType) list" where
  "orderSchema =
     [(''orderItems'', SchemaType ''Array'' [] None None None (Some (reference ''OrderItem'' [Required]))),
      (''shippingAddress1'', plain ''String'' [Required]),
      (''shippingAddress2'', plain ''String'' []),
      (''city'', plain ''String'' [Required]),
      (''zip'', plain ''String'' [Required]),
      (''country'', plain ''String'' [Required]),
      (''phone'', plain ''String'' [Required]),
      (''status'', plain ''String'' [Enum status_enum]),
      (''totalPrice'', plain ''Number'' [Required]),
      (''user'', reference ''User'' []),
      (''dateOrdered'', plain ''Date'' []),
      (''_id'', plain ''ObjectId'' []),
      (''__v'', plain ''Number'' [])]"

definition categorySchema :: "(string \<times> schemaType) list" where
  "categorySchema =
     [(''name'', plain ''String'' [Required]),
      (''icon'', plain ''String'' []),
      (''color'', plain ''String'' []),
      (''image'', plain ''String'' []),
      (''_id'', plain ''ObjectId'' []),
      (''__v'', plain ''Number'' [])]"

definition orderItemSchema :: "(string \<times> schemaType) list" where
  "orderItemSchema =
     [(''quantity'', plain ''Number'' [Required]),
      (''product'', reference ''Product'' [Required]),
      (''_id'', plain ''ObjectId'' []),
      (''__v'', plain ''Number'' [])]"

text \<open>
  The models \<open>mongoose.models\<close> holds when the documentation is generated, in the
  order \<open>app.js\<close> loads them. The paths of the user model are a parameter.
\<close>

definition shop_models :: "(string \<times> schemaType) list \<Rightarrow> (string \<times> (string \<times> schemaType) list option) list" where
  "shop_models userSchema =
     [(''User'', Some userSchema), (''Product'', Some productSchema),
      (''Category'', Some categorySchema), (''Order'', Some orderSchema),
      (''OrderItem'', Some orderItemSchema)]"

section \<open>Reading answers and documents\<close>

text \<open>The status of the response a handler sent, and the fields of a JSON object.\<close>

definition status_sent :: "res \<Rightarrow> nat option" where
  "status_sent r = map_option code_of (sent r)"

definition json_field :: "json \<Rightarrow> string \<Rightarrow> json option" where
  "json_field j k = (case j of JObj kvs \<Rightarrow> map_of kvs k | _ \<Rightarrow> None)"

definition is_string :: "json option \<Rightarrow> bool" where
  "is_string j = (case j of Some (JStr _) \<Rightarrow> True | _ \<Rightarrow> False)"

fun json_at :: "json option \<Rightarrow> string list \<Rightarrow> json option" where
  "json_at j [] = j"
| "json_at j (k # ks) = json_at (case j of None \<Rightarrow> None | Some v \<Rightarrow> json_field v k) ks"

text \<open>
  The schema of the 200 response in the object \<open>determineResponseSchema\<close> returns, and
  the operation stored under a path and a method in the generated paths.
\<close>

definition schema_200 :: "json \<Rightarrow> json option" where
  "schema_200 responses = json_at (Some responses) [''200'', ''content'', ''application/json'', ''schema'']"

definition operation_at :: "(string \<times> json) list \<Rightarrow> string \<Rightarrow> string \<Rightarrow> json option" where
  "operation_at paths url m = map_of (object_fields (map_of paths url)) m"

section \<open>The conditions the claims speak of\<close>

text \<open>
  An item references an existing product when its \<open>product\<close> field finds a product;
  its line total is the price of that product times its quantity, as \<open>*\<close> computes
  it. An item is valid when \<open>new OrderItem\<close> accepts it.
\<close>

definition references_existing_product :: "db \<Rightarrow> item_body \<Rightarrow> bool" where
  "references_existing_product d ib =
     (case findById (products d) (given (ib_product ib)) of Inr (Some _) \<Rightarrow> True | _ \<Rightarrow> False)"

definition line_total :: "db \<Rightarrow> item_body \<Rightarrow> number" where
  "line_total d ib =
     (case findById (products d) (given (ib_product ib)) of
        Inr (Some (_, p)) \<Rightarrow>
          (case ib_quantity ib of Given q \<Rightarrow> num_mul (to_number (price p)) q | _ \<Rightarrow> NaN)
      | _ \<Rightarrow> NaN)"

definition item_valid :: "item_body \<Rightarrow> bool" where
  "item_valid ib = (case new_order_item ib of Inr _ \<Rightarrow> True | Inl _ \<Rightarrow> False)"

text \<open>
  The rational a finite number stands for, the number that is exactly a given
  rational, and the rationals the format represents. The exact line total of an item
  is the product of the two rationals; an item is finite when its price and its
  quantity are. A sum is unrounded when every term and every partial sum, taken in
  order, is represented exactly.
\<close>

definition num_value :: "number \<Rightarrow> rat" where
  "num_value x = (case x of Num s m \<Rightarrow> signed_value s m | _ \<Rightarrow> 0)"

definition is_finite :: "number \<Rightarrow> bool" where
  "is_finite x = (case x of Num s m \<Rightarrow> 0 \<le> m | _ \<Rightarrow> False)"

definition exact :: "rat \<Rightarrow> number" where
  "exact r = Num (r < 0) \<bar>r\<bar>"

definition representable :: "rat \<Rightarrow> bool" where
  "representable r = (round_mag \<bar>r\<bar> = Some \<bar>r\<bar>)"

definition line_value :: "db \<Rightarrow> item_body \<Rightarrow> rat" where
  "line_value d ib =
     (case findById (products d) (given (ib_product ib)) of
        Inr (Some (_, p)) \<Rightarrow>
          (case ib_quantity ib of
             Given q \<Rightarrow> num_value (to_number (price p)) * num_value q
           | _ \<Rightarrow> 0)
      | _ \<Rightarrow> 0)"

definition finite_item :: "db \<Rightarrow> item_body \<Rightarrow> bool" where
  "finite_item d ib =
     (case findById (products d) (given (ib_product ib)) of
        Inr (Some (_, p)) \<Rightarrow>
          (case ib_quantity ib of
             Given q \<Rightarrow> is_finite (to_number (price p)) \<and> is_finite q
           | _ \<Rightarrow> False)
      | _ \<Rightarrow> False)"

fun unrounded :: "rat \<Rightarrow> rat list \<Rightarrow> bool" where
  "unrounded acc [] = True"
| "unrounded acc (x # xs) = (representable x \<and> representable (acc + x) \<and> unrounded (acc + x) xs)"

text \<open>
  The upload middleware accepts a request without a file and a file of a listed image
  type. The category of a request is found when the lookup resolves to a document; it
  is missing when the lookup resolves to \<open>null\<close>, which it does for an absent field
  and for a well-formed identifier under which no category is stored.
\<close>

definition upload_accepted :: "product_request \<Rightarrow> bool" where
  "upload_accepted rq =
     (case rq_upload rq of None \<Rightarrow> True | Some file \<Rightarrow> map_of FILE_TYPE_MAP (mimetype file) \<noteq> None)"

definition category_found :: "db \<Rightarrow> product_request \<Rightarrow> bool" where
  "category_found d rq =
     (case findById (categories d) (pb_category (rq_body rq)) of Inr (Some _) \<Rightarrow> True | _ \<Rightarrow> False)"

definition category_missing :: "db \<Rightarrow> product_request \<Rightarrow> bool" where
  "category_missing d rq = (findById (categories d) (pb_category (rq_body rq)) = Inr None)"

text \<open>Every stored order has a status of the schema's enumeration.\<close>

definition status_invariant :: "db \<Rightarrow> bool" where
  "status_invariant d =
     list_all (\<lambda>(k, ord). case status ord of None \<Rightarrow> False | Some s \<Rightarrow> s \<in> set status_enum)
       (orders d)"

text \<open>The token the gate lets through: valid signature, not expired, an administrator's.\<close>

definition admin_token_ok :: "request \<Rightarrow> bool" where
  "admin_token_ok req =
     (case bearer req of
        None \<Rightarrow> False
      | Some t \<Rightarrow> signature_valid t \<and> \<not> expired t \<and> payload_isAdmin t)"

text \<open>
  Every route of every router file, with the key \<open>generateSwaggerPaths\<close> stores it
  under.
\<close>

definition all_routes :: "(string \<times> (string \<times> string) list) list \<Rightarrow> (string \<times> string \<times> string) list" where
  "all_routes files = concat (map (\<lambda>(f, routes). map (\<lambda>(m, p). (f, m, p)) routes) files)"

definition route_key :: "string \<times> string \<times> string \<Rightarrow> string \<times> string" where
  "route_key r = (case r of (f, m, p) \<Rightarrow> (fullPath f p, toLowerCase m))"

text \<open>
  What a path's validators declare: the \<open>min\<close>, \<open>max\<close> and \<open>enum\<close> validator that
  comes last, if there is one; and the OpenAPI type of an instance name.
\<close>

fun declared_min :: "validator list \<Rightarrow> int option" where
  "declared_min [] = None"
| "declared_min (v # vs) =
     (case declared_min vs of Some n \<Rightarrow> Some n | None \<Rightarrow> (case v of Min n \<Rightarrow> Some n | _ \<Rightarrow> None))"

fun declared_max :: "validator list \<Rightarrow> int option" where
  "declared_max [] = None"
| "declared_max (v # vs) =
     (case declared_max vs of Some n \<Rightarrow> Some n | None \<Rightarrow> (case v of Max n \<Rightarrow> Some n | _ \<Rightarrow> None))"

fun declared_enum :: "validator list \<Rightarrow> string list option" where
  "declared_enum [] = None"
| "declared_enum (v # vs) =
     (case declared_enum vs of Some e \<Rightarrow> Some e | None \<Rightarrow> (case v of Enum e \<Rightarrow> Some e | _ \<Rightarrow> None))"

definition swagger_type :: "schemaType \<Rightarrow> string" where
  "swagger_type st =
     (if st_instance st = ''Array'' then ''array''
      else if st_instance st \<in> {''Number'', ''Decimal128''} then ''number''
      else if st_instance st = ''Boolean'' then ''boolean''
      else if st_instance st \<in> {''Mixed'', ''Map''} then ''object''
      else ''string'')"

section \<open>A small shop, for concrete runs\<close>

definition empty_db :: db where
  "empty_db = \<lparr>categories = [], products = [], orderItems = [], orders = [], users = [], nextId = 0\<rparr>"

definition demo_category :: category where
  "demo_category = \<lparr>cat_name = ''Books'', cat_icon = None, cat_color = None, cat_image = None\<rparr>"

definition demo_product :: product where
  "demo_product = \<lparr>prod_name = ''Pen'', prod_description = ''A pen'', richDescription = [],
     image_url = [], images = [], brand = [], price = Some (Num False (5 / 2)), prod_category = 1,
     countInStock = int_num 10, rating = Some (int_num 0), isFeatured = False\<rparr>"

definition demo_db :: db where
  "demo_db = \<lparr>categories = [(1, demo_category)], products = [(2, demo_product)],
     orderItems = [], orders = [], users = [], nextId = 3\<rparr>"

definition demo_items :: "item_body list" where
  "demo_items = [\<lparr>ib_quantity = Given (int_num 2), ib_product = Given ''000000000000000000000002''\<rparr>,
                 \<lparr>ib_quantity = Given (int_num 4), ib_product = Given ''000000000000000000000002''\<rparr>]"

definition demo_order_body :: order_body where
  "demo_order_body = \<lparr>ob_orderItems = Given demo_items, ob_shippingAddress1 = Given ''1 Main St'',
     ob_shippingAddress2 = Absent, ob_city = Given ''Kyiv'', ob_zip = Given ''01001'',
     ob_country = Given ''UA'', ob_phone = Given ''555'', ob_status = Absent, ob_user = Absent,
     ob_dateOrdered = Absent\<rparr>"

text \<open>The shop after that order has been placed, with one more order item.\<close>

definition demo_order :: order where
  "demo_order = \<lparr>order_items = [3, 4], shippingAddress1 = ''1 Main St'',
     shippingAddress2 = Some [], city = ''Kyiv'', zipCode = ''01001'', country = ''UA'',
     phone = ''555'', status = Some ''Pending'', totalPrice = int_num 15, user = None,
     dateOrdered = Some 7\<rparr>"

definition demo_db_ordered :: db where
  "demo_db_ordered = \<lparr>categories = [(1, demo_category)], products = [(2, demo_product)],
     orderItems = [(3, \<lparr>quantity = int_num 2, item_product = 2\<rparr>),
                   (4, \<lparr>quantity = int_num 4, item_product = 2\<rparr>),
                   (8, \<lparr>quantity = int_num 1, item_product = 2\<rparr>)],
     orders = [(5, demo_order)], users = [], nextId = 9\<rparr>"

text \<open>
  A shop whose one product costs 9007199254740991, the largest integer below
  \<open>2 ^ 53\<close>, and an order for three of it.
\<close>

definition costly_product :: product where
  "costly_product = demo_product\<lparr>price := Some (int_num 9007199254740991)\<rparr>"

definition costly_db :: db where
  "costly_db = demo_db\<lparr>products := [(2, costly_product)]\<rparr>"

definition costly_items :: "item_body list" where
  "costly_items = [\<lparr>ib_quantity = Given (int_num 3), ib_product = Given ''000000000000000000000002''\<rparr>]"

definition costly_order_body :: order_body where
  "costly_order_body = demo_order_body\<lparr>ob_orderItems := Given costly_items\<rparr>"

definition costly_order :: order where
  "costly_order = demo_order\<lparr>order_items := [3], totalPrice := int_num 27021597764222972\<rparr>"

text \<open>
  An order for a product that is not stored, and an order without a shipping address.
\<close>

definition orphan_items :: "item_body list" where
  "orphan_items = [\<lparr>ib_quantity = Given (int_num 2), ib_product = Given ''000000000000000000000009''\<rparr>]"

definition orphan_order_body :: order_body where
  "orphan_order_body = demo_order_body\<lparr>ob_orderItems := Given orphan_items\<rparr>"

definition unaddressed_order_body :: order_body where
  "unaddressed_order_body = demo_order_body\<lparr>ob_shippingAddress1 := Absent\<rparr>"

text \<open>
  A product for category 9, which is not stored: with a PNG image, with a PDF, with
  a malformed category identifier, and with no category at all.
\<close>

definition demo_product_request :: product_request where
  "demo_product_request =
     \<lparr>rq_body = \<lparr>pb_name = Some ''Ink'', pb_description = Some ''Blue ink'',
                  pb_richDescription = None, pb_images = None, pb_brand = None,
                  pb_price = Given (int_num 3), pb_category = Some ''000000000000000000000009'',
                  pb_countInStock = Given (int_num 4), pb_rating = Absent, pb_isFeatured = None\<rparr>,
      rq_upload = Some \<lparr>originalname = ''ink.png'', mimetype = ''image/png''\<rparr>,
      rq_protocol = ''http'', rq_host = ''localhost:3000''\<rparr>"

definition pdf_product_request :: product_request where
  "pdf_product_request =
     demo_product_request\<lparr>rq_upload := Some \<lparr>originalname = ''ink.pdf'', mimetype = ''application/pdf''\<rparr>\<rparr>"

definition malformed_product_request :: product_request where
  "malformed_product_request =
     demo_product_request\<lparr>rq_body := (rq_body demo_product_request)\<lparr>pb_category := Some ''xyz''\<rparr>\<rparr>"

definition uncategorised_product_request :: product_request where
  "uncategorised_product_request =
     demo_product_request\<lparr>rq_body := (rq_body demo_product_request)\<lparr>pb_category := None\<rparr>\<rparr>"

text \<open>An order placed without a token.\<close>

definition unauthenticated_order_request :: request where
  "unauthenticated_order_request =
     \<lparr>req_method = ''POST'', req_path = ''/api/v1/orders'', bearer = None\<rparr>"

section \<open>Order creation computes the total from the items\<close>

text \<open>
  Saving the items changes no product and no order, and every identifier it resolves
  to holds the item that was submitted at its place.
\<close>

lemma promise_all_Inr: "promise_all (map Inr xs) = Inr xs"
  by (induction xs) simp_all

lemma save_items_frame:
  "save_items d items = (d', rs) \<Longrightarrow>
     products d' = products d \<and> orders d' = orders d \<and> categories d' = categories d \<and>
     users d' = users d \<and> nextId d' = nextId d + length items \<and>
     (\<forall>i < nextId d. map_of (orderItems d') i = map_of (orderItems d) i)"
proof (induction items arbitrary: d d' rs)
  case Nil
  then show ?case by simp
next
  case (Cons ib ibs)
  show ?case
  proof (cases "new_order_item ib")
    case (Inl e)
    with Cons.prems obtain rs' where
      "save_items (d\<lparr>nextId := Suc (nextId d)\<rparr>) ibs = (d', rs')"
      by (auto split: prod.splits)
    from Cons.IH[OF this] show ?thesis by simp
  next
    case (Inr it)
    with Cons.prems obtain rs' where
      "save_items (d\<lparr>orderItems := AList.update (nextId d) it (orderItems d),
                     nextId := Suc (nextId d)\<rparr>) ibs = (d', rs')"
      by (auto split: prod.splits)
    from Cons.IH[OF this] show ?thesis by (simp add: update_conv')
  qed
qed

lemma save_items_saved:
  "save_items d items = (d', rs) \<Longrightarrow> promise_all rs = Inr ids \<Longrightarrow>
     list_all2 (\<lambda>i ib. \<exists>it. new_order_item ib = Inr it \<and> map_of (orderItems d') i = Some it) ids items"
proof (induction items arbitrary: d d' rs ids)
  case Nil
  then show ?case by auto
next
  case (Cons ib ibs)
  show ?case
  proof (cases "new_order_item ib")
    case (Inl e)
    with Cons.prems show ?thesis by (auto split: prod.splits)
  next
    case (Inr it)
    let ?d1 = "d\<lparr>orderItems := AList.update (nextId d) it (orderItems d),
                     nextId := Suc (nextId d)\<rparr>"
    from Inr Cons.prems obtain rs' where s: "save_items ?d1 ibs = (d', rs')"
      and rs: "rs = Inr (nextId d) # rs'"
      by (auto split: prod.splits)
    from rs Cons.prems(2) obtain ids' where p: "promise_all rs' = Inr ids'"
      and ids: "ids = nextId d # ids'"
      by (auto split: sum.splits)
    have "map_of (orderItems d') (nextId d) = map_of (orderItems ?d1) (nextId d)"
      using save_items_frame[OF s] by simp
    then have "map_of (orderItems d') (nextId d) = Some it"
      by (simp add: update_conv')
    with Cons.IH[OF s p] Inr ids show ?thesis by simp
  qed
qed

lemma item_price_saved:
  assumes "references_existing_product d ib"
      and "new_order_item ib = Inr it"
      and "map_of (orderItems d1) i = Some it"
      and "products d1 = products d"
  shows "item_price d1 i = Inr (line_total d ib)"
  using assms
  by (auto simp: references_existing_product_def new_order_item_def item_price_def
        line_total_def findById_def given_def
      split: option.splits sum.splits field.splits if_splits)

lemma prices_saved:
  assumes "list_all2 (\<lambda>i ib. \<exists>it. new_order_item ib = Inr it \<and> map_of (orderItems d1) i = Some it) ids items"
      and "list_all (references_existing_product d) items"
      and "products d1 = products d"
  shows "map (item_price d1) ids = map Inr (map (line_total d) items)"
  using assms
proof (induction ids items rule: list_all2_induct)
  case Nil
  then show ?case by simp
next
  case (Cons i ids ib items)
  then show ?case by (auto simp: item_price_saved)
qed

lemma new_order_totalPrice: "new_order now b ids t = Inr ord \<Longrightarrow> totalPrice ord = t \<and> order_items ord = ids"
  by (auto simp: new_order_def split: if_splits)

text \<open>
  When no rounding is needed the operators compute the exact product and the exact
  sum, and so does the \<open>reduce\<close>.
\<close>

lemma rounded_representable: "0 \<le> m \<Longrightarrow> representable m \<Longrightarrow> rounded s m = Num s m"
  by (simp add: rounded_def representable_def)

lemma num_mul_exact:
  assumes "is_finite x" and "is_finite y" and "representable (num_value x * num_value y)"
  shows "is_finite (num_mul x y) \<and> num_value (num_mul x y) = num_value x * num_value y"
proof -
  from assms(1) obtain s m where x: "x = Num s m" and m: "0 \<le> m"
    by (cases x) (auto simp: is_finite_def)
  from assms(2) obtain t n where y: "y = Num t n" and n: "0 \<le> n"
    by (cases y) (auto simp: is_finite_def)
  have "\<bar>num_value x * num_value y\<bar> = m * n"
    using m n by (simp add: x y num_value_def signed_value_def abs_mult)
  with assms(3) have "representable (m * n)"
    by (simp add: representable_def)
  with m n have "num_mul x y = Num (s \<noteq> t) (m * n)"
    by (simp add: x y rounded_representable)
  with m n show ?thesis
    by (auto simp: is_finite_def num_value_def signed_value_def x y)
qed

lemma num_add_exact:
  assumes "is_finite x" and "representable (a + num_value x)"
  shows "num_add (exact a) x = exact (a + num_value x)"
proof -
  from assms(1) obtain t n where x: "x = Num t n" and n: "0 \<le> n"
    by (cases x) (auto simp: is_finite_def)
  from assms(2) have r: "round_mag \<bar>a + signed_value t n\<bar> = Some \<bar>a + signed_value t n\<bar>"
    by (simp add: representable_def x num_value_def)
  show ?thesis
    using n r
    by (auto simp: x exact_def num_value_def signed_value_def rounded_def abs_if ac_simps
        split: if_splits option.splits)
qed

lemma foldl_exact:
  "list_all is_finite xs \<Longrightarrow> unrounded acc (map num_value xs) \<Longrightarrow>
     foldl num_add (exact acc) xs = exact (acc + sum_list (map num_value xs))"
proof (induction xs arbitrary: acc)
  case Nil
  then show ?case by simp
next
  case (Cons x xs)
  from Cons.prems have "num_add (exact acc) x = exact (acc + num_value x)"
    by (simp add: num_add_exact)
  with Cons.IH[of "acc + num_value x"] Cons.prems show ?case
    by (simp add: add.assoc)
qed

lemma unrounded_representable: "unrounded acc vs \<Longrightarrow> list_all representable vs"
  by (induction vs arbitrary: acc) auto

lemma line_total_exact:
  assumes "finite_item d ib" and "representable (line_value d ib)"
  shows "is_finite (line_total d ib) \<and> num_value (line_total d ib) = line_value d ib"
  using assms num_mul_exact
  by (auto simp: finite_item_def line_value_def line_total_def split: sum.splits option.splits field.splits)

lemma line_totals_exact:
  assumes "list_all (finite_item d) items" and "list_all representable (map (line_value d) items)"
  shows "list_all is_finite (map (line_total d) items) \<and>
         map num_value (map (line_total d) items) = map (line_value d) items"
  using assms by (induction items) (auto simp: line_total_exact)

lemma int_num_0: "int_num 0 = exact 0"
  by (simp add: int_num_def exact_def)

text \<open>Every integer of magnitude at most \<open>2 ^ 53\<close> is represented exactly.\<close>

lemma roundTiesToEven_of_int: "roundTiesToEven (of_int j) = j"
  by (simp add: roundTiesToEven_def)

lemma floor_log2_of_int:
  assumes "0 < k"
  shows "floor_log2 (of_int k) = bitlen k - 1"
proof -
  have b1: "bitlen 1 = 1" by (simp add: bitlen_alt_def)
  from bitlen_bounds[OF assms] have le: "2 ^ nat (bitlen k - 1) \<le> k" by simp
  have nn: "0 \<le> bitlen k - 1"
    using assms bitlen_eq_zero_iff[of k] bitlen_nonneg[of k] by linarith
  from le have "(of_int (2 ^ nat (bitlen k - 1)) :: rat) \<le> of_int k"
    by (simp only: of_int_le_iff)
  then have "\<not> (of_int k :: rat) < pow2 (bitlen k - 1)"
    using nn by (simp add: pow2_def)
  then show ?thesis
    by (simp add: floor_log2_def b1 Let_def)
qed

lemma pow2_pos: "0 < pow2 e"
  by (simp add: pow2_def)

lemma round_mag_of_int:
  assumes "0 \<le> k" and "k \<le> 2 ^ 53"
  shows "round_mag (of_int k) = Some (of_int k)"
proof (cases "k = 0")
  case True
  then show ?thesis by (simp add: round_mag_def)
next
  case False
  with assms have pos: "0 < k" by simp
  define e where "e = bitlen k - 1"
  have fl: "floor_log2 (of_int k) = e"
    using floor_log2_of_int[OF pos] by (simp add: e_def)
  have nn: "0 \<le> e"
    using pos bitlen_eq_zero_iff[of k] bitlen_nonneg[of k] unfolding e_def by linarith
  from bitlen_bounds[OF pos] have le: "2 ^ nat e \<le> k" by (simp add: e_def)
  with assms(2) have "(2::int) ^ nat e \<le> 2 ^ 53" by linarith
  from power_le_imp_le_exp[OF _ this] have "nat e \<le> 53" by simp
  with nn have e53: "e \<le> 53" by linarith
  have small: "\<not> pow2 1024 \<le> (of_int k :: rat)"
  proof -
    have "(of_int k :: rat) \<le> of_int (2 ^ 53)" using assms(2) by (simp only: of_int_le_iff)
    also have "\<dots> < pow2 1024" by (simp add: pow2_def)
    finally show ?thesis by simp
  qed
  have m: "of_int (roundTiesToEven (of_int k / pow2 (e - 52))) * pow2 (e - 52) = (of_int k :: rat)"
  proof (cases "e \<le> 52")
    case True
    then have p: "pow2 (e - 52) = 1 / 2 ^ nat (52 - e)"
      by (cases "e = 52") (simp_all add: pow2_def)
    have "(of_int k :: rat) / pow2 (e - 52) = of_int (k * 2 ^ nat (52 - e))"
      by (simp add: p)
    then show ?thesis
      by (simp only: roundTiesToEven_of_int) (simp add: p)
  next
    case False
    with e53 have e: "e = 53" by simp
    with le assms(2) have k: "k = 2 ^ 53" by simp
    have "(of_int k :: rat) / pow2 (e - 52) = of_int (2 ^ 52)"
      by (simp add: e k pow2_def)
    then show ?thesis
      by (simp only: roundTiesToEven_of_int) (simp add: e k pow2_def)
  qed
  from pos have "(of_int k :: rat) \<noteq> 0" by simp
  with fl nn small m show ?thesis
    by (simp add: round_mag_def Let_def max_def)
qed

lemma integer_representable:
  assumes "\<bar>n\<bar> \<le> 2 ^ 53"
  shows "representable (of_int n)"
  using round_mag_of_int[of "\<bar>n\<bar>"] assms
  by (simp add: representable_def)

lemma rat_integer_representable:
  assumes "x \<in> \<int>" and "\<bar>x\<bar> \<le> 2 ^ 53"
  shows "representable x"
proof -
  from assms(1) obtain n where x: "x = of_int n" by (auto elim: Ints_cases)
  from assms(2) have "(of_int \<bar>n\<bar> :: rat) \<le> of_int (2 ^ 53)" by (simp add: x)
  then have "\<bar>n\<bar> \<le> 2 ^ 53" by (simp only: of_int_le_iff)
  from integer_representable[OF this] show ?thesis by (simp add: x)
qed

lemma unrounded_integers:
  "list_all (\<lambda>x. x \<in> \<int>) vs \<Longrightarrow> acc \<in> \<int> \<Longrightarrow> \<bar>acc\<bar> + (\<Sum>x\<leftarrow>vs. \<bar>x\<bar>) \<le> 2 ^ 53 \<Longrightarrow>
     unrounded acc vs"
proof (induction vs arbitrary: acc)
  case Nil
  then show ?case by simp
next
  case (Cons x vs)
  have nn: "0 \<le> (\<Sum>x\<leftarrow>vs. \<bar>x\<bar>)" by (rule sum_list_nonneg) auto
  from Cons.prems have x: "x \<in> \<int>" and vs: "list_all (\<lambda>x. x \<in> \<int>) vs" by simp_all
  from Cons.prems(3) nn have b1: "\<bar>x\<bar> \<le> 2 ^ 53" and b2: "\<bar>acc + x\<bar> \<le> 2 ^ 53"
    and b3: "\<bar>acc + x\<bar> + (\<Sum>x\<leftarrow>vs. \<bar>x\<bar>) \<le> 2 ^ 53"
    by simp_all
  from x Cons.prems(2) have ax: "acc + x \<in> \<int>" by simp
  from rat_integer_representable[OF x b1] rat_integer_representable[OF ax b2]
    Cons.IH[OF vs ax b3]
  show ?case by simp
qed

text \<open>
  Claim C1, as amended. When every submitted order item references an existing
  product, the order that \<open>POST /orders\<close> creates (the one in its 201 answer, which is
  also the one stored) has a \<open>totalPrice\<close> equal to the sum of the line totals as the
  handler computes it in double precision: each line total is the product of the
  price and the quantity rounded to a double, and the line totals are added in the
  order of the items, from 0, each partial sum rounded to a double. That is the exact
  sum of quantity times price whenever no line total and no partial sum needs
  rounding, and in particular whenever the line totals are integers whose absolute
  values add up to at most \<open>2 ^ 53\<close>.
\<close>

theorem orders_post_totalPrice:
  assumes items: "ob_orderItems b = Given items"
      and refs: "list_all (references_existing_product d) items"
      and run: "orders_post now d b = (d', r)"
      and created: "sent r = Some \<lparr>code_of = 201, body = JDoc (OrderDoc k ord)\<rparr>"
  shows "map_of (orders d') k = Some ord \<and>
         totalPrice ord = foldl num_add (int_num 0) (map (line_total d) items) \<and>
         (list_all (finite_item d) items \<and> unrounded 0 (map (line_value d) items) \<longrightarrow>
            totalPrice ord = exact (\<Sum>ib\<leftarrow>items. line_value d ib)) \<and>
         (list_all (finite_item d) items \<and> list_all (\<lambda>ib. line_value d ib \<in> \<int>) items \<and>
          (\<Sum>ib\<leftarrow>items. \<bar>line_value d ib\<bar>) \<le> 2 ^ 53 \<longrightarrow>
            totalPrice ord = exact (\<Sum>ib\<leftarrow>items. line_value d ib))"
proof -
  obtain d1 saved where s: "save_items d items = (d1, saved)"
    by (cases "save_items d items")
  from run created items s obtain ids where p: "promise_all saved = Inr ids"
    by (cases "promise_all saved") (auto simp: orders_post_def throw_def res0_def)
  have prod: "products d1 = products d"
    using save_items_frame[OF s] by simp
  have "map (item_price d1) ids = map Inr (map (line_total d) items)"
    using prices_saved[OF save_items_saved[OF s p] refs prod] .
  then have prices: "promise_all (map (item_price d1) ids) = Inr (map (line_total d) items)"
    by (simp only: promise_all_Inr)
  let ?t = "foldl num_add (int_num 0) (map (line_total d) items)"
  from run created items s p prices obtain ord' where
    n: "new_order now b ids ?t = Inr ord'"
    and d': "d' = d1\<lparr>nextId := Suc (nextId d1), orders := AList.update (nextId d1) ord' (orders d1)\<rparr>"
    and r: "r = send 201 (JDoc (OrderDoc (nextId d1) ord')) res0"
    by (cases "new_order now b ids ?t")
       (auto simp: orders_post_def Let_def send_def res_send_def res_status_def res0_def)
  from r created have k: "k = nextId d1" "ord = ord'"
    by (auto simp: send_def res_send_def res_status_def res0_def)
  have stored: "map_of (orders d') k = Some ord"
    using k d' by (simp add: update_conv')
  have total: "totalPrice ord = ?t"
    using k new_order_totalPrice[OF n] by simp
  have ex: "totalPrice ord = exact (\<Sum>ib\<leftarrow>items. line_value d ib)"
    if fin: "list_all (finite_item d) items" and unr: "unrounded 0 (map (line_value d) items)"
  proof -
    from line_totals_exact[OF fin unrounded_representable[OF unr]]
    have f: "list_all is_finite (map (line_total d) items)"
      and v: "map num_value (map (line_total d) items) = map (line_value d) items"
      by simp_all
    from unr have "unrounded 0 (map num_value (map (line_total d) items))" by (simp only: v)
    from foldl_exact[OF f this] have "?t = exact (0 + sum_list (map (line_value d) items))"
      by (simp only: v int_num_0)
    with total show ?thesis by simp
  qed
  have "totalPrice ord = exact (\<Sum>ib\<leftarrow>items. line_value d ib)"
    if fin: "list_all (finite_item d) items" and ints: "list_all (\<lambda>ib. line_value d ib \<in> \<int>) items"
      and bound: "(\<Sum>ib\<leftarrow>items. \<bar>line_value d ib\<bar>) \<le> 2 ^ 53"
  proof -
    from ints have i: "list_all (\<lambda>x. x \<in> \<int>) (map (line_value d) items)"
      by (simp add: list_all_iff)
    from bound have "\<bar>0 :: rat\<bar> + (\<Sum>x\<leftarrow>map (line_value d) items. \<bar>x\<bar>) \<le> 2 ^ 53"
      by (simp add: comp_def)
    from unrounded_integers[OF i _ this] have "unrounded 0 (map (line_value d) items)" by simp
    from ex[OF fin this] show ?thesis .
  qed
  with stored total ex show ?thesis by blast
qed

text \<open>
  A run on the small shop: two items of a product priced 2.5, quantities 2 and 4,
  which total 15.
\<close>

lemma cast2: "castObjectId ''000000000000000000000002'' = Some 2"
  by (simp add: castObjectId_def hex_digit_def)

lemma int_num_not_NaN: "\<not> isNaN (int_num n)"
  by (simp add: isNaN_def int_num_def)

lemma demo_arithmetic:
  "num_mul (Num False (5 / 2)) (int_num 2) = int_num 5"
  "num_mul (Num False (5 / 2)) (int_num 4) = int_num 10"
  "num_add (int_num 0) (int_num 5) = int_num 5"
  "num_add (int_num 5) (int_num 10) = int_num 15"
  using round_mag_of_int[of 5] round_mag_of_int[of 10] round_mag_of_int[of 15]
  by (simp_all add: int_num_def rounded_def)

lemma demo_run:
  "orders_post 7 demo_db demo_order_body =
     (demo_db\<lparr>orderItems := [(3, \<lparr>quantity = int_num 2, item_product = 2\<rparr>),
                               (4, \<lparr>quantity = int_num 4, item_product = 2\<rparr>)],
              orders := [(5, demo_order)], nextId := 6\<rparr>,
      send 201 (JDoc (OrderDoc 5 demo_order)) res0)"
  by (simp add: orders_post_def demo_order_body_def demo_items_def demo_db_def demo_order_def
        new_order_item_def given_def with_default_def int_num_not_NaN cast2 item_price_def
        new_order_def required_str_def or_default_def status_enum_def demo_product_def to_number_def
        demo_arithmetic Let_def)

theorem orders_post_totalPrice_witness:
  "\<exists>d' r k ord. orders_post 7 demo_db demo_order_body = (d', r) \<and>
      sent r = Some \<lparr>code_of = 201, body = JDoc (OrderDoc k ord)\<rparr> \<and>
      list_all (references_existing_product demo_db) demo_items \<and>
      list_all (finite_item demo_db) demo_items \<and>
      unrounded 0 (map (line_value demo_db) demo_items) \<and>
      list_all (\<lambda>ib. line_value demo_db ib \<in> \<int>) demo_items \<and>
      (\<Sum>ib\<leftarrow>demo_items. \<bar>line_value demo_db ib\<bar>) \<le> 2 ^ 53 \<and>
      map_of (orders d') k = Some ord \<and>
      totalPrice ord = foldl num_add (int_num 0) (map (line_total demo_db) demo_items) \<and>
      totalPrice ord = exact (\<Sum>ib\<leftarrow>demo_items. line_value demo_db ib) \<and>
      totalPrice ord = int_num 15"
proof -
  obtain d' r where run: "orders_post 7 demo_db demo_order_body = (d', r)"
    and r: "r = send 201 (JDoc (OrderDoc 5 demo_order)) res0"
    using demo_run by simp
  have created: "sent r = Some \<lparr>code_of = 201, body = JDoc (OrderDoc 5 demo_order)\<rparr>"
    by (simp add: r send_def res_send_def res_status_def res0_def)
  have items: "ob_orderItems demo_order_body = Given demo_items"
    by (simp add: demo_order_body_def)
  have f: "findById (products demo_db) (Some ''000000000000000000000002'') = Inr (Some (2, demo_product))"
    by (simp add: findById_def cast2 demo_db_def)
  have refs: "list_all (references_existing_product demo_db) demo_items"
    by (simp add: demo_items_def references_existing_product_def given_def f)
  have fin: "list_all (finite_item demo_db) demo_items"
    by (simp add: demo_items_def finite_item_def given_def f is_finite_def demo_product_def int_num_def
          to_number_def)
  have v: "map (line_value demo_db) demo_items = [5, 10]"
    by (simp add: demo_items_def line_value_def given_def f num_value_def signed_value_def
          demo_product_def int_num_def to_number_def)
  have ints: "list_all (\<lambda>ib. line_value demo_db ib \<in> \<int>) demo_items"
    using v by (simp add: demo_items_def)
  have bound: "(\<Sum>ib\<leftarrow>demo_items. \<bar>line_value demo_db ib\<bar>) \<le> 2 ^ 53"
    using v by (simp add: demo_items_def)
  have "unrounded 0 [5 :: rat, 10]"
    using unrounded_integers[of "[5, 10]" 0] by simp
  then have unr: "unrounded 0 (map (line_value demo_db) demo_items)"
    by (simp only: v)
  have t: "totalPrice demo_order = int_num 15"
    by (simp add: demo_order_def)
  from orders_post_totalPrice[OF items refs run created] fin unr ints bound t run created refs
  show ?thesis by blast
qed

text \<open>
  The claim as written gives the exact sum. A product costs 9007199254740991 and the
  order is for three of it: the exact total is 27021597764222973, which no double
  is, and the order is created with the total 27021597764222972.
\<close>

lemma costly_rounding: "round_mag 27021597764222973 = Some 27021597764222972"
proof -
  have "floor_log2 27021597764222973 = 54"
    by code_simp
  moreover have "roundTiesToEven (27021597764222973 / 4) = 6755399441055743"
    by code_simp
  ultimately show ?thesis
    by (simp add: round_mag_def pow2_def Let_def)
qed

lemma costly_total: "round_mag 27021597764222972 = Some 27021597764222972"
proof -
  have "floor_log2 27021597764222972 = 54"
    by code_simp
  moreover have "roundTiesToEven (27021597764222972 / 4) = 6755399441055743"
    by code_simp
  ultimately show ?thesis
    by (simp add: round_mag_def pow2_def Let_def)
qed

lemma costly_arithmetic:
  "num_mul (int_num 9007199254740991) (int_num 3) = int_num 27021597764222972"
  "num_add (int_num 0) (int_num 27021597764222972) = int_num 27021597764222972"
  using costly_rounding costly_total
  by (simp_all add: int_num_def rounded_def)

theorem orders_post_totalPrice_rounding_counterexample:
  "list_all (references_existing_product costly_db) costly_items \<and>
   sent (snd (orders_post 7 costly_db costly_order_body)) =
     Some \<lparr>code_of = 201, body = JDoc (OrderDoc 4 costly_order)\<rparr> \<and>
   map_of (orders (fst (orders_post 7 costly_db costly_order_body))) 4 = Some costly_order \<and>
   totalPrice costly_order = int_num 27021597764222972 \<and>
   (\<Sum>ib\<leftarrow>costly_items. line_value costly_db ib) = 27021597764222973 \<and>
   totalPrice costly_order \<noteq> exact (\<Sum>ib\<leftarrow>costly_items. line_value costly_db ib)"
proof -
  have f: "findById (products costly_db) (Some ''000000000000000000000002'') = Inr (Some (2, costly_product))"
    by (simp add: findById_def cast2 costly_db_def demo_db_def)
  have refs: "list_all (references_existing_product costly_db) costly_items"
    by (simp add: costly_items_def references_existing_product_def given_def f)
  have run: "orders_post 7 costly_db costly_order_body =
     (costly_db\<lparr>orderItems := [(3, \<lparr>quantity = int_num 3, item_product = 2\<rparr>)],
                 orders := [(4, costly_order)], nextId := 5\<rparr>,
      send 201 (JDoc (OrderDoc 4 costly_order)) res0)"
    by (simp add: orders_post_def costly_order_body_def costly_items_def costly_db_def
          costly_product_def costly_order_def demo_order_body_def demo_db_def demo_order_def
          new_order_item_def given_def with_default_def int_num_not_NaN cast2 item_price_def
          new_order_def required_str_def or_default_def status_enum_def demo_product_def to_number_def
          costly_arithmetic Let_def)
  have v: "(\<Sum>ib\<leftarrow>costly_items. line_value costly_db ib) = 27021597764222973"
    by (simp add: costly_items_def line_value_def given_def f num_value_def signed_value_def
          costly_product_def int_num_def to_number_def)
  have t: "totalPrice costly_order = int_num 27021597764222972"
    by (simp add: costly_order_def)
  have ne: "int_num 27021597764222972 \<noteq> exact 27021597764222973"
    by (simp add: int_num_def exact_def)
  from refs run v t ne show ?thesis
    by (simp add: send_def res_send_def res_status_def res0_def)
qed

text \<open>
  Prices with a fraction: the double nearest to 0.1 is 3602879701896397 / 2 ^ 55, and
  three times it is the double 0.30000000000000004, not the double nearest to 0.3.
\<close>

lemma tenth_times_three:
  "rounded False (1 / 10) = Num False (3602879701896397 / 36028797018963968) \<and>
   num_mul (Num False (3602879701896397 / 36028797018963968)) (int_num 3)
     = Num False (1351079888211149 / 4503599627370496) \<and>
   rounded False (3 / 10) = Num False (5404319552844595 / 18014398509481984) \<and>
   (1351079888211149 / 4503599627370496 :: rat) \<noteq> 5404319552844595 / 18014398509481984"
proof -
  have "floor_log2 (1 / 10) = - 4"
    by code_simp
  moreover have "roundTiesToEven (1 / 10 * 72057594037927936) = 7205759403792794"
    by code_simp
  ultimately have a: "round_mag (1 / 10) = Some (3602879701896397 / 36028797018963968)"
    by (simp add: round_mag_def pow2_def Let_def)
  have "floor_log2 (10808639105689191 / 36028797018963968) = - 2"
    by code_simp
  moreover have "roundTiesToEven (10808639105689191 / 36028797018963968 * 18014398509481984)
      = 5404319552844596"
    by code_simp
  ultimately have b: "round_mag (10808639105689191 / 36028797018963968)
      = Some (1351079888211149 / 4503599627370496)"
    by (simp add: round_mag_def pow2_def Let_def)
  have "floor_log2 (3 / 10) = - 2"
    by code_simp
  moreover have "roundTiesToEven (3 / 10 * 18014398509481984) = 5404319552844595"
    by code_simp
  ultimately have c: "round_mag (3 / 10) = Some (5404319552844595 / 18014398509481984)"
    by (simp add: round_mag_def pow2_def Let_def)
  from a b c show ?thesis
    by (simp add: rounded_def int_num_def)
qed

section \<open>The error middleware's statuses\<close>

text \<open>
  Claim C3, as amended. As a function of the error's name and code, the middleware
  answers 401 exactly for \<open>UnauthorizedError\<close>, \<open>JsonWebTokenError\<close> and
  \<open>TokenExpiredError\<close>; 404 exactly for \<open>NotFoundError\<close>; 400 exactly for
  \<open>ValidationError\<close>, \<open>CastError\<close>, \<open>MulterError\<close>, \<open>SyntaxError\<close>, \<open>RangeError\<close>,
  \<open>TypeError\<close>, \<open>ReferenceError\<close> and a \<open>MongoError\<close> with code 11000; and 500 for
  every other error. Every answer but the 500 carries a text message.
\<close>

theorem errorHandler_status:
  "(code_of (errorHandler err) = 401 \<longleftrightarrow>
      name err \<in> {''UnauthorizedError'', ''JsonWebTokenError'', ''TokenExpiredError''}) \<and>
   (code_of (errorHandler err) = 404 \<longleftrightarrow> name err = ''NotFoundError'') \<and>
   (code_of (errorHandler err) = 400 \<longleftrightarrow>
      name err \<in> {''ValidationError'', ''CastError'', ''MulterError'', ''SyntaxError'',
                  ''RangeError'', ''TypeError'', ''ReferenceError''} \<or>
      (name err = ''MongoError'' \<and> code err = NumCode 11000)) \<and>
   (code_of (errorHandler err) = 500 \<longleftrightarrow>
      name err \<notin> {''UnauthorizedError'', ''JsonWebTokenError'', ''TokenExpiredError'',
                  ''NotFoundError'', ''ValidationError'', ''CastError'', ''MulterError'',
                  ''SyntaxError'', ''RangeError'', ''TypeError'', ''ReferenceError''} \<and>
      \<not> (name err = ''MongoError'' \<and> code err = NumCode 11000)) \<and>
   (is_string (json_field (body (errorHandler err)) ''message'') \<longleftrightarrow>
      code_of (errorHandler err) \<noteq> 500)"
  by (simp add: errorHandler_def msg_def json_field_def is_string_def)

text \<open>
  The claim as written gives the 400 answers to validation, cast, duplicate-key and
  parse errors only and 500 to every other name: a \<open>TypeError\<close> is none of the four
  and is answered 400.
\<close>

theorem errorHandler_TypeError_counterexample:
  "code_of (errorHandler (type_error ''x is not a function'')) = 400 \<and>
   code_of (errorHandler (type_error ''x is not a function'')) \<noteq> 500 \<and>
   name (type_error ''x is not a function'') \<notin>
     {''ValidationError'', ''CastError'', ''MongoError'', ''SyntaxError''}"
  by (simp add: errorHandler_def type_error_def)

section \<open>Reading a document that does not exist\<close>

text \<open>
  Claim C4, as amended. When the identifier of \<open>GET /:id\<close> is a well-formed
  \<open>ObjectId\<close> under which nothing is stored, the response sent by the products, orders
  and categories handlers has status 404.
\<close>

theorem get_by_id_not_found:
  "(castObjectId i = Some k \<and> map_of (products d) k = None \<longrightarrow>
      status_sent (products_get_by_id d i) = Some 404) \<and>
   (castObjectId i = Some k \<and> map_of (orders d) k = None \<longrightarrow>
      status_sent (orders_get_by_id d i) = Some 404) \<and>
   (castObjectId i = Some k \<and> map_of (categories d) k = None \<longrightarrow>
      status_sent (categories_get_by_id d i) = Some 404)"
  by (simp add: products_get_by_id_def orders_get_by_id_def categories_get_by_id_def findById_def
        status_sent_def send_def res_send_def res_status_def throw_def res0_def)

lemma get_by_id_malformed:
  "castObjectId i = None \<Longrightarrow>
     status_sent (categories_get_by_id d i) = Some 500 \<and>
     sent (products_get_by_id d i) = None \<and> thrown (products_get_by_id d i) = Some (cast_error i) \<and>
     sent (orders_get_by_id d i) = None \<and> thrown (orders_get_by_id d i) = Some (cast_error i)"
  by (simp add: products_get_by_id_def orders_get_by_id_def categories_get_by_id_def findById_def
        status_sent_def send_def res_send_def res_status_def throw_def res0_def)

lemma cast9: "castObjectId ''000000000000000000000009'' = Some 9"
  by (simp add: castObjectId_def hex_digit_def)

theorem get_by_id_not_found_witness:
  "castObjectId ''000000000000000000000009'' = Some 9 \<and>
   map_of (products demo_db) 9 = None \<and> map_of (orders demo_db) 9 = None \<and>
   map_of (categories demo_db) 9 = None \<and>
   status_sent (products_get_by_id demo_db ''000000000000000000000009'') = Some 404 \<and>
   status_sent (orders_get_by_id demo_db ''000000000000000000000009'') = Some 404 \<and>
   status_sent (categories_get_by_id demo_db ''000000000000000000000009'') = Some 404"
proof -
  have h: "map_of (products demo_db) 9 = None" "map_of (orders demo_db) 9 = None"
    "map_of (categories demo_db) 9 = None"
    by (simp_all add: demo_db_def)
  from get_by_id_not_found[of "''000000000000000000000009''" 9 demo_db] cast9 h
  show ?thesis by simp
qed

text \<open>
  The claim as written covers every identifier that matches no stored document. The
  identifier \<open>xyz\<close> matches none, and the query rejects: the categories handler
  answers 500 from its \<open>catch\<close>, the products and orders handlers throw and send nothing.
\<close>

theorem get_by_id_malformed_counterexample:
  "findById (categories demo_db) (Some ''xyz'') \<noteq> Inr (Some (1, demo_category)) \<and>
   status_sent (categories_get_by_id demo_db ''xyz'') = Some 500 \<and>
   status_sent (categories_get_by_id demo_db ''xyz'') \<noteq> Some 404 \<and>
   status_sent (products_get_by_id demo_db ''xyz'') = None \<and>
   status_sent (orders_get_by_id demo_db ''xyz'') = None"
  by (simp add: products_get_by_id_def orders_get_by_id_def categories_get_by_id_def findById_def
        castObjectId_def status_sent_def send_def res_send_def res_status_def throw_def res0_def)

section \<open>Counting an empty collection\<close>

text \<open>
  Claim C9. When the collection is empty, each count handler sends a 500 answer with
  a not-found message and then attempts a second send of \<open>{count: 0}\<close>, which throws
  because the answer has gone out: the client gets the 500, not a zero count.
\<close>

theorem get_count_zero:
  "(countDocuments (products d) = 0 \<longrightarrow>
      sent (products_get_count d) = Some \<lparr>code_of = 500, body = failure ''Products not found''\<rparr> \<and>
      calls (products_get_count d) =
        [\<lparr>code_of = 500, body = failure ''Products not found''\<rparr>,
         \<lparr>code_of = 500, body = JObj [(''count'', JNum 0)]\<rparr>] \<and>
      thrown (products_get_count d) = Some headers_sent) \<and>
   (countDocuments (users d) = 0 \<longrightarrow>
      sent (users_get_count d) = Some \<lparr>code_of = 500, body = failure ''Users not found''\<rparr> \<and>
      calls (users_get_count d) =
        [\<lparr>code_of = 500, body = failure ''Users not found''\<rparr>,
         \<lparr>code_of = 500, body = JObj [(''count'', JNum 0)]\<rparr>] \<and>
      thrown (users_get_count d) = Some headers_sent) \<and>
   (countDocuments (orders d) = 0 \<longrightarrow>
      sent (orders_get_count d) = Some \<lparr>code_of = 500, body = failure ''Orders not found''\<rparr> \<and>
      calls (orders_get_count d) =
        [\<lparr>code_of = 500, body = failure ''Orders not found''\<rparr>,
         \<lparr>code_of = 500, body = JObj [(''count'', JNum 0)]\<rparr>] \<and>
      thrown (orders_get_count d) = Some headers_sent)"
  by (simp add: products_get_count_def users_get_count_def orders_get_count_def get_count_def
        send_def res_send_def res_status_def res0_def)

theorem get_count_zero_witness:
  "countDocuments (products empty_db) = 0 \<and> countDocuments (users empty_db) = 0 \<and>
   countDocuments (orders empty_db) = 0 \<and>
   map_option code_of (sent (products_get_count empty_db)) = Some 500 \<and>
   map_option code_of (sent (users_get_count empty_db)) = Some 500 \<and>
   map_option code_of (sent (orders_get_count empty_db)) = Some 500 \<and>
   map body (calls (orders_get_count empty_db)) =
     [failure ''Orders not found'', JObj [(''count'', JNum 0)]]"
proof -
  have z: "countDocuments (products empty_db) = 0" "countDocuments (users empty_db) = 0"
    "countDocuments (orders empty_db) = 0"
    by (simp_all add: countDocuments_def empty_db_def)
  from get_count_zero[of empty_db] z show ?thesis by simp
qed

section \<open>Creating a product in a category that does not exist\<close>

lemma products_post_no_category:
  "findById (categories d) (pb_category (pr_body req)) = Inr None \<Longrightarrow>
     products_post d req = (d, send 400 (JStr ''Invalid Category'') res0)"
  by (simp add: products_post_def)

lemma products_post_cast_error:
  "findById (categories d) (pb_category (pr_body req)) = Inl e \<Longrightarrow>
     products_post d req = (d, throw e res0)"
  by (simp add: products_post_def)

lemma products_post_route_accepted:
  assumes "upload_accepted rq"
  shows "\<exists>req. products_post_route stamp d rq = products_post d req \<and> pr_body req = rq_body rq"
  using assms
  by (auto simp: products_post_route_def upload_accepted_def storage_filename_def Let_def
      split: option.splits)

lemma products_post_route_refused:
  assumes "\<not> upload_accepted rq"
  shows "products_post_route stamp d rq = (d, next_error invalid_image_type)"
  using assms
  by (auto simp: products_post_route_def upload_accepted_def storage_filename_def Let_def
      split: option.splits)

text \<open>
  Claim C5, as amended. When the category field does not identify an existing
  category, \<open>POST /products\<close> persists nothing: the store is unchanged. When moreover
  the upload middleware accepts the request and the lookup of the category resolves to
  \<open>null\<close> (the field is absent, or is a well-formed identifier under which no category
  is stored), the answer is 400 with the text \<open>Invalid Category\<close>.
\<close>

theorem products_post_invalid_category:
  "(\<not> category_found d rq \<longrightarrow> fst (products_post_route stamp d rq) = d) \<and>
   (upload_accepted rq \<and> category_missing d rq \<longrightarrow>
      sent (snd (products_post_route stamp d rq)) =
        Some \<lparr>code_of = 400, body = JStr ''Invalid Category''\<rparr>)"
proof (intro conjI impI)
  assume nf: "\<not> category_found d rq"
  show "fst (products_post_route stamp d rq) = d"
  proof (cases "upload_accepted rq")
    case True
    from products_post_route_accepted[OF True] obtain req where
      r: "products_post_route stamp d rq = products_post d req" and b: "pr_body req = rq_body rq"
      by blast
    show ?thesis
    proof (cases "findById (categories d) (pb_category (rq_body rq))")
      case (Inl e)
      with products_post_cast_error[of d req e] r b show ?thesis by simp
    next
      case (Inr found)
      with nf have "found = None"
        by (cases found) (auto simp: category_found_def)
      with Inr products_post_no_category[of d req] r b show ?thesis by simp
    qed
  next
    case False
    from products_post_route_refused[OF False] show ?thesis by simp
  qed
next
  assume "upload_accepted rq \<and> category_missing d rq"
  then have u: "upload_accepted rq"
    and m: "findById (categories d) (pb_category (rq_body rq)) = Inr None"
    by (simp_all add: category_missing_def)
  from products_post_route_accepted[OF u] obtain req where
    r: "products_post_route stamp d rq = products_post d req" and b: "pr_body req = rq_body rq"
    by blast
  from m products_post_no_category[of d req] r b
  show "sent (snd (products_post_route stamp d rq)) =
        Some \<lparr>code_of = 400, body = JStr ''Invalid Category''\<rparr>"
    by (simp add: send_def res_send_def res_status_def res0_def)
qed

text \<open>
  A run on the small shop: a product for category 9, which is not stored, with a PNG
  image; and the same request without a category.
\<close>

theorem products_post_invalid_category_witness:
  "\<not> category_found demo_db demo_product_request \<and>
   upload_accepted demo_product_request \<and> category_missing demo_db demo_product_request \<and>
   fst (products_post_route ''1700000000000'' demo_db demo_product_request) = demo_db \<and>
   sent (snd (products_post_route ''1700000000000'' demo_db demo_product_request)) =
     Some \<lparr>code_of = 400, body = JStr ''Invalid Category''\<rparr> \<and>
   upload_accepted uncategorised_product_request \<and>
   category_missing demo_db uncategorised_product_request \<and>
   sent (snd (products_post_route ''1700000000000'' demo_db uncategorised_product_request)) =
     Some \<lparr>code_of = 400, body = JStr ''Invalid Category''\<rparr>"
proof -
  have u: "upload_accepted demo_product_request" "upload_accepted uncategorised_product_request"
    by (simp_all add: upload_accepted_def demo_product_request_def uncategorised_product_request_def
          FILE_TYPE_MAP_def)
  have m: "category_missing demo_db demo_product_request"
    "category_missing demo_db uncategorised_product_request"
    by (simp_all add: category_missing_def findById_def demo_product_request_def
          uncategorised_product_request_def cast9 demo_db_def)
  then have c: "\<not> category_found demo_db demo_product_request"
    by (simp add: category_found_def category_missing_def)
  note T = products_post_invalid_category[of demo_db demo_product_request "''1700000000000''"]
  note U = products_post_invalid_category[of demo_db uncategorised_product_request "''1700000000000''"]
  from T c have 1: "fst (products_post_route ''1700000000000'' demo_db demo_product_request) = demo_db"
    by blast
  from T u(1) m(1) have 2: "sent (snd (products_post_route ''1700000000000'' demo_db demo_product_request)) =
     Some \<lparr>code_of = 400, body = JStr ''Invalid Category''\<rparr>"
    by blast
  from U u(2) m(2) have 3:
    "sent (snd (products_post_route ''1700000000000'' demo_db uncategorised_product_request)) =
     Some \<lparr>code_of = 400, body = JStr ''Invalid Category''\<rparr>"
    by blast
  from 1 2 3 u m c show ?thesis by simp
qed

text \<open>
  The claim as written promises the bad-request answer for every request whose
  category does not identify an existing one. With a PDF as the image the upload
  middleware refuses the request before the handler runs, and the error middleware
  answers its error with 500, whatever the category. With the malformed identifier
  \<open>xyz\<close> the lookup rejects and the handler, which has no \<open>catch\<close>, throws the
  \<open>CastError\<close> and sends nothing itself.
\<close>

theorem products_post_refused_upload_counterexample:
  "\<not> category_found demo_db pdf_product_request \<and>
   status_sent (snd (products_post_route ''1700000000000'' demo_db pdf_product_request)) = Some 500 \<and>
   status_sent (snd (products_post_route ''1700000000000'' demo_db pdf_product_request)) \<noteq> Some 400 \<and>
   \<not> category_found demo_db malformed_product_request \<and>
   sent (snd (products_post_route ''1700000000000'' demo_db malformed_product_request)) = None \<and>
   thrown (snd (products_post_route ''1700000000000'' demo_db malformed_product_request)) =
     Some (cast_error ''xyz'')"
proof -
  have x: "castObjectId ''xyz'' = None"
    by (simp add: castObjectId_def)
  show ?thesis
    by (simp add: category_found_def findById_def cast9 x demo_db_def pdf_product_request_def
          malformed_product_request_def demo_product_request_def products_post_route_def
          products_post_def storage_filename_def FILE_TYPE_MAP_def next_error_def
          invalid_image_type_def errorHandler_def status_sent_def send_def res_send_def
          res_status_def throw_def res0_def)
qed

section \<open>Deleting an order\<close>

lemma map_of_fold_delete:
  "map_of (fold AList.delete ks al) j = (if j \<in> set ks then None else map_of al j)"
  by (induction ks arbitrary: al) (auto simp: delete_conv')

text \<open>
  Claim C6, as amended. For an existing order, \<open>DELETE /orders/:id\<close> removes the
  order, issues a removal for each identifier in its \<open>orderItems\<close> (so none of them is
  stored afterwards, and no other order item is touched) and answers 200 with success;
  for a well-formed identifier under which no order is stored it answers 404 and
  changes nothing; for a malformed identifier it answers 500 from its \<open>catch\<close> and
  changes nothing.
\<close>

theorem orders_delete_cascade:
  "(castObjectId i = Some k \<and> map_of (orders d) k = Some ord \<longrightarrow>
      sent (snd (orders_delete d i)) =
        Some \<lparr>code_of = 200, body = success ''Order deleted successfully''\<rparr> \<and>
      map_of (orders (fst (orders_delete d i))) = (map_of (orders d))(k := None) \<and>
      (\<forall>j \<in> set (order_items ord). map_of (orderItems (fst (orders_delete d i))) j = None) \<and>
      (\<forall>j. j \<notin> set (order_items ord) \<longrightarrow>
         map_of (orderItems (fst (orders_delete d i))) j = map_of (orderItems d) j)) \<and>
   (castObjectId i = Some k \<and> map_of (orders d) k = None \<longrightarrow>
      fst (orders_delete d i) = d \<and>
      sent (snd (orders_delete d i)) = Some \<lparr>code_of = 404, body = failure ''Order not found''\<rparr>) \<and>
   (castObjectId i = None \<longrightarrow>
      fst (orders_delete d i) = d \<and> status_sent (snd (orders_delete d i)) = Some 500)"
  by (auto simp: orders_delete_def findById_def status_sent_def send_def res_send_def res_status_def
        res0_def map_of_fold_delete delete_conv')

lemma cast5: "castObjectId ''000000000000000000000005'' = Some 5"
  by (simp add: castObjectId_def hex_digit_def)

theorem orders_delete_cascade_witness:
  "castObjectId ''000000000000000000000005'' = Some 5 \<and>
   map_of (orders demo_db_ordered) 5 = Some demo_order \<and>
   castObjectId ''000000000000000000000009'' = Some 9 \<and>
   map_of (orders demo_db_ordered) 9 = None \<and>
   castObjectId ''xyz'' = None \<and>
   sent (snd (orders_delete demo_db_ordered ''000000000000000000000005'')) =
     Some \<lparr>code_of = 200, body = success ''Order deleted successfully''\<rparr> \<and>
   map_of (orders (fst (orders_delete demo_db_ordered ''000000000000000000000005''))) 5 = None \<and>
   map_of (orderItems (fst (orders_delete demo_db_ordered ''000000000000000000000005''))) 3 = None \<and>
   map_of (orderItems (fst (orders_delete demo_db_ordered ''000000000000000000000005''))) 4 = None \<and>
   map_of (orderItems (fst (orders_delete demo_db_ordered ''000000000000000000000005''))) 8 =
     Some \<lparr>quantity = int_num 1, item_product = 2\<rparr> \<and>
   fst (orders_delete demo_db_ordered ''000000000000000000000009'') = demo_db_ordered \<and>
   sent (snd (orders_delete demo_db_ordered ''000000000000000000000009'')) =
     Some \<lparr>code_of = 404, body = failure ''Order not found''\<rparr> \<and>
   fst (orders_delete demo_db_ordered ''xyz'') = demo_db_ordered \<and>
   status_sent (snd (orders_delete demo_db_ordered ''xyz'')) = Some 500"
proof -
  have f: "map_of (orders demo_db_ordered) 5 = Some demo_order"
    "map_of (orders demo_db_ordered) 9 = None" "castObjectId ''xyz'' = None"
    by (simp_all add: demo_db_ordered_def castObjectId_def)
  have i: "order_items demo_order = [3, 4]" by (simp add: demo_order_def)
  have m: "map_of (orderItems demo_db_ordered) 8 = Some \<lparr>quantity = int_num 1, item_product = 2\<rparr>"
    by (simp add: demo_db_ordered_def)
  from orders_delete_cascade[of "''000000000000000000000005''" 5 demo_db_ordered demo_order] cast5 f i m
  have "sent (snd (orders_delete demo_db_ordered ''000000000000000000000005'')) =
     Some \<lparr>code_of = 200, body = success ''Order deleted successfully''\<rparr> \<and>
   map_of (orders (fst (orders_delete demo_db_ordered ''000000000000000000000005''))) 5 = None \<and>
   map_of (orderItems (fst (orders_delete demo_db_ordered ''000000000000000000000005''))) 3 = None \<and>
   map_of (orderItems (fst (orders_delete demo_db_ordered ''000000000000000000000005''))) 4 = None \<and>
   map_of (orderItems (fst (orders_delete demo_db_ordered ''000000000000000000000005''))) 8 =
     Some \<lparr>quantity = int_num 1, item_product = 2\<rparr>"
    by simp
  moreover from orders_delete_cascade[of "''000000000000000000000009''" 9 demo_db_ordered demo_order] cast9 f
  have "fst (orders_delete demo_db_ordered ''000000000000000000000009'') = demo_db_ordered \<and>
   sent (snd (orders_delete demo_db_ordered ''000000000000000000000009'')) =
     Some \<lparr>code_of = 404, body = failure ''Order not found''\<rparr>"
    by simp
  moreover from orders_delete_cascade[of "''xyz''" 0 demo_db_ordered demo_order] f
  have "fst (orders_delete demo_db_ordered ''xyz'') = demo_db_ordered \<and>
   status_sent (snd (orders_delete demo_db_ordered ''xyz'')) = Some 500"
    by simp
  ultimately show ?thesis using cast5 cast9 f by simp
qed

text \<open>
  The claim as written answers 404 for every order that does not exist. No order
  \<open>xyz\<close> exists, and the answer is 500.
\<close>

theorem orders_delete_malformed_counterexample:
  "findById (orders demo_db_ordered) (Some ''xyz'') \<noteq> Inr (Some (5, demo_order)) \<and>
   fst (orders_delete demo_db_ordered ''xyz'') = demo_db_ordered \<and>
   status_sent (snd (orders_delete demo_db_ordered ''xyz'')) = Some 500 \<and>
   status_sent (snd (orders_delete demo_db_ordered ''xyz'')) \<noteq> Some 404"
  by (simp add: orders_delete_def findById_def castObjectId_def status_sent_def send_def
        res_send_def res_status_def res0_def)

section \<open>Order creation is not atomic\<close>

lemma save_items_persist:
  "save_items d items = (d', rs) \<Longrightarrow> n < length items \<Longrightarrow> new_order_item (items ! n) = Inr it \<Longrightarrow>
     map_of (orderItems d') (nextId d + n) = Some it"
proof (induction items arbitrary: d d' rs n)
  case Nil
  then show ?case by simp
next
  case (Cons ib ibs)
  obtain dm where dm: "dm = (case new_order_item ib of
        Inl e \<Rightarrow> d\<lparr>nextId := Suc (nextId d)\<rparr>
      | Inr x \<Rightarrow> d\<lparr>orderItems := AList.update (nextId d) x (orderItems d), nextId := Suc (nextId d)\<rparr>)"
    by simp
  from Cons.prems(1) dm obtain rs' where s: "save_items dm ibs = (d', rs')"
    by (auto split: sum.splits prod.splits)
  have nx: "nextId dm = Suc (nextId d)"
    using dm by (simp split: sum.splits)
  show ?case
  proof (cases n)
    case 0
    with Cons.prems(3) have "new_order_item ib = Inr it" by simp
    with dm have "map_of (orderItems dm) (nextId d) = Some it"
      by (simp add: update_conv')
    moreover have "map_of (orderItems d') (nextId d) = map_of (orderItems dm) (nextId d)"
      using save_items_frame[OF s] nx by simp
    ultimately show ?thesis using 0 by simp
  next
    case (Suc m)
    with Cons.prems have "m < length ibs" "new_order_item (ibs ! m) = Inr it" by simp_all
    from Cons.IH[OF s this] nx Suc show ?thesis by simp
  qed
qed

lemma save_items_all_valid:
  "save_items d items = (d', rs) \<Longrightarrow> list_all item_valid items \<Longrightarrow> \<exists>ids. promise_all rs = Inr ids"
proof (induction items arbitrary: d d' rs)
  case Nil
  then show ?case by simp
next
  case (Cons ib ibs)
  from Cons.prems(2) obtain it where it: "new_order_item ib = Inr it"
    by (auto simp: item_valid_def split: sum.splits)
  let ?dm = "d\<lparr>orderItems := AList.update (nextId d) it (orderItems d), nextId := Suc (nextId d)\<rparr>"
  from Cons.prems(1) it obtain rs' where s: "save_items ?dm ibs = (d', rs')"
    and rs: "rs = Inr (nextId d) # rs'"
    by (auto split: prod.splits)
  from Cons.prems(2) have "list_all item_valid ibs" by simp
  from Cons.IH[OF s this] rs show ?case
    by auto
qed

lemma promise_all_Inr_map: "promise_all xs = Inr ys \<Longrightarrow> xs = map Inr ys"
  by (induction xs arbitrary: ys rule: promise_all.induct) (auto split: sum.splits)

lemma promise_all_Inl_mem: "promise_all xs = Inl e \<Longrightarrow> Inl e \<in> set xs"
  by (induction xs rule: promise_all.induct) (auto split: sum.splits)

lemma item_price_error: "item_price d i = Inl e \<Longrightarrow> name e = ''TypeError''"
  by (auto simp: item_price_def type_error_def split: option.splits)

lemma orders_post_orderItems:
  assumes "ob_orderItems b = Given items" and "save_items d items = (d1, saved)"
  shows "orderItems (fst (orders_post now d b)) = orderItems d1"
  using assms
  by (auto simp: orders_post_def Let_def split: sum.splits)

lemma orders_post_orders:
  assumes "status_sent (snd (orders_post now d b)) \<noteq> Some 201"
  shows "orders (fst (orders_post now d b)) = orders d"
proof (cases "ob_orderItems b")
  case Absent
  then show ?thesis by (simp add: orders_post_def)
next
  case Null
  then show ?thesis by (simp add: orders_post_def)
next
  case (Given items)
  obtain d1 saved where s: "save_items d items = (d1, saved)"
    by (cases "save_items d items")
  have "orders d1 = orders d" using save_items_frame[OF s] by simp
  with assms Given s show ?thesis
    by (auto simp: orders_post_def Let_def status_sent_def send_def res_send_def res_status_def res0_def split: sum.splits)
qed

lemma item_price_missing_product:
  assumes "\<not> references_existing_product d ib"
      and "new_order_item ib = Inr it"
      and "map_of (orderItems d1) i = Some it"
      and "products d1 = products d"
  shows "\<exists>e. item_price d1 i = Inl e"
  using assms
  by (auto simp: references_existing_product_def new_order_item_def item_price_def findById_def
        given_def
      split: option.splits sum.splits field.splits if_splits)

lemma prices_missing_product:
  assumes "list_all2 (\<lambda>i ib. \<exists>it. new_order_item ib = Inr it \<and> map_of (orderItems d1) i = Some it) ids items"
      and "\<not> list_all (references_existing_product d) items"
      and "products d1 = products d"
  shows "\<exists>i \<in> set ids. \<exists>e. item_price d1 i = Inl e"
  using assms
proof (induction ids items rule: list_all2_induct)
  case Nil
  then show ?case by simp
next
  case (Cons i ids ib items)
  then show ?case
    using item_price_missing_product[of d ib _ d1 i] by (cases "references_existing_product d ib") auto
qed

lemma orders_post_missing_product:
  assumes items: "ob_orderItems b = Given items"
      and valid: "list_all item_valid items"
      and missing: "\<not> list_all (references_existing_product d) items"
  shows "sent (snd (orders_post now d b)) = None \<and>
         (\<exists>e. thrown (snd (orders_post now d b)) = Some e \<and> name e = ''TypeError'')"
proof -
  obtain d1 saved where s: "save_items d items = (d1, saved)"
    by (cases "save_items d items")
  from save_items_all_valid[OF s valid] obtain ids where p: "promise_all saved = Inr ids" ..
  have prod: "products d1 = products d"
    using save_items_frame[OF s] by simp
  from prices_missing_product[OF save_items_saved[OF s p] missing prod]
  obtain i e0 where i: "i \<in> set ids" and e0: "item_price d1 i = Inl e0" by blast
  have "\<exists>e. promise_all (map (item_price d1) ids) = Inl e"
  proof (cases "promise_all (map (item_price d1) ids)")
    case (Inl e)
    then show ?thesis by simp
  next
    case (Inr ys)
    from promise_all_Inr_map[OF this] i have "item_price d1 i \<in> Inr ` set ys"
      by (metis image_eqI image_set set_map)
    with e0 show ?thesis by auto
  qed
  then obtain e where e: "promise_all (map (item_price d1) ids) = Inl e" ..
  from promise_all_Inl_mem[OF e] have "name e = ''TypeError''"
    using item_price_error by auto
  with items s p e show ?thesis
    by (simp add: orders_post_def throw_def res0_def)
qed

lemma orders_post_missing_address:
  assumes items: "ob_orderItems b = Given items"
      and valid: "list_all item_valid items"
      and refs: "list_all (references_existing_product d) items"
      and addr: "\<not> required_str (given (ob_shippingAddress1 b))"
  shows "status_sent (snd (orders_post now d b)) = Some 500"
proof -
  obtain d1 saved where s: "save_items d items = (d1, saved)"
    by (cases "save_items d items")
  from save_items_all_valid[OF s valid] obtain ids where p: "promise_all saved = Inr ids" ..
  have prod: "products d1 = products d"
    using save_items_frame[OF s] by simp
  have "map (item_price d1) ids = map Inr (map (line_total d) items)"
    using prices_saved[OF save_items_saved[OF s p] refs prod] .
  then have prices: "promise_all (map (item_price d1) ids) = Inr (map (line_total d) items)"
    by (simp only: promise_all_Inr)
  have "\<exists>e. new_order now b ids (foldl num_add (int_num 0) (map (line_total d) items)) = Inl e"
    using addr by (simp add: new_order_def)
  with items s p prices show ?thesis
    by (auto simp: orders_post_def Let_def status_sent_def send_def res_send_def res_status_def res0_def)
qed

text \<open>
  Claim C10. \<open>POST /orders\<close> stores every valid submitted item under its new
  identifier whatever happens next; an order is stored only with the 201 answer. When
  an item references a product that does not exist the handler throws a \<open>TypeError\<close>
  without answering, and when the shipping address is missing it answers 500: in both
  cases the stored items stay.
\<close>

theorem orders_post_not_atomic:
  assumes items: "ob_orderItems b = Given items"
  shows "(\<forall>n it. n < length items \<and> new_order_item (items ! n) = Inr it \<longrightarrow>
            map_of (orderItems (fst (orders_post now d b))) (nextId d + n) = Some it) \<and>
         (status_sent (snd (orders_post now d b)) \<noteq> Some 201 \<longrightarrow>
            orders (fst (orders_post now d b)) = orders d) \<and>
         (list_all item_valid items \<and> \<not> list_all (references_existing_product d) items \<longrightarrow>
            status_sent (snd (orders_post now d b)) = None \<and>
            (\<exists>e. thrown (snd (orders_post now d b)) = Some e \<and> name e = ''TypeError'')) \<and>
         (list_all item_valid items \<and> list_all (references_existing_product d) items \<and>
          \<not> required_str (given (ob_shippingAddress1 b)) \<longrightarrow>
            status_sent (snd (orders_post now d b)) = Some 500)"
proof -
  obtain d1 saved where s: "save_items d items = (d1, saved)"
    by (cases "save_items d items")
  have "\<forall>n it. n < length items \<and> new_order_item (items ! n) = Inr it \<longrightarrow>
            map_of (orderItems (fst (orders_post now d b))) (nextId d + n) = Some it"
    using save_items_persist[OF s] orders_post_orderItems[OF items s] by simp
  moreover have "status_sent (snd (orders_post now d b)) \<noteq> Some 201 \<longrightarrow>
            orders (fst (orders_post now d b)) = orders d"
    using orders_post_orders by blast
  moreover have "list_all item_valid items \<and> \<not> list_all (references_existing_product d) items \<longrightarrow>
            status_sent (snd (orders_post now d b)) = None \<and>
            (\<exists>e. thrown (snd (orders_post now d b)) = Some e \<and> name e = ''TypeError'')"
    using orders_post_missing_product[OF items] by (simp add: status_sent_def)
  moreover have "list_all item_valid items \<and> list_all (references_existing_product d) items \<and>
          \<not> required_str (given (ob_shippingAddress1 b)) \<longrightarrow>
            status_sent (snd (orders_post now d b)) = Some 500"
    using orders_post_missing_address[OF items] by blast
  ultimately show ?thesis by blast
qed

theorem orders_post_not_atomic_witness:
  "map_of (orderItems (fst (orders_post 7 demo_db orphan_order_body))) 3 =
     Some \<lparr>quantity = int_num 2, item_product = 9\<rparr> \<and>
   orders (fst (orders_post 7 demo_db orphan_order_body)) = orders demo_db \<and>
   status_sent (snd (orders_post 7 demo_db orphan_order_body)) = None \<and>
   map_of (orderItems (fst (orders_post 7 demo_db unaddressed_order_body))) 3 =
     Some \<lparr>quantity = int_num 2, item_product = 2\<rparr> \<and>
   map_of (orderItems (fst (orders_post 7 demo_db unaddressed_order_body))) 4 =
     Some \<lparr>quantity = int_num 4, item_product = 2\<rparr> \<and>
   orders (fst (orders_post 7 demo_db unaddressed_order_body)) = orders demo_db \<and>
   status_sent (snd (orders_post 7 demo_db unaddressed_order_body)) = Some 500"
proof -
  have o: "ob_orderItems orphan_order_body = Given orphan_items"
    by (simp add: orphan_order_body_def)
  have u: "ob_orderItems unaddressed_order_body = Given demo_items"
    by (simp add: unaddressed_order_body_def demo_order_body_def)
  have ov: "list_all item_valid orphan_items"
    by (simp add: orphan_items_def item_valid_def new_order_item_def given_def int_num_not_NaN cast9)
  have om: "\<not> list_all (references_existing_product demo_db) orphan_items"
    by (simp add: orphan_items_def references_existing_product_def findById_def given_def cast9 demo_db_def)
  have uv: "list_all item_valid demo_items"
    by (simp add: demo_items_def item_valid_def new_order_item_def given_def int_num_not_NaN cast2)
  have ur: "list_all (references_existing_product demo_db) demo_items"
    by (simp add: demo_items_def references_existing_product_def findById_def given_def cast2 demo_db_def)
  have ua: "\<not> required_str (given (ob_shippingAddress1 unaddressed_order_body))"
    by (simp add: unaddressed_order_body_def required_str_def given_def)
  have o0: "new_order_item (orphan_items ! 0) = Inr \<lparr>quantity = int_num 2, item_product = 9\<rparr>"
    by (simp add: orphan_items_def new_order_item_def given_def int_num_not_NaN cast9)
  have u0: "new_order_item (demo_items ! 0) = Inr \<lparr>quantity = int_num 2, item_product = 2\<rparr>"
    by (simp add: demo_items_def new_order_item_def given_def int_num_not_NaN cast2)
  have u1: "new_order_item (demo_items ! 1) = Inr \<lparr>quantity = int_num 4, item_product = 2\<rparr>"
    by (simp add: demo_items_def new_order_item_def given_def int_num_not_NaN cast2)
  have n: "nextId demo_db = 3" "length orphan_items = 1" "length demo_items = 2"
    by (simp_all add: demo_db_def orphan_items_def demo_items_def)
  note a = orders_post_not_atomic[OF o, of 7 demo_db]
  note b = orders_post_not_atomic[OF u, of 7 demo_db]
  from a o0 n have 1: "map_of (orderItems (fst (orders_post 7 demo_db orphan_order_body))) (3 + 0) =
     Some \<lparr>quantity = int_num 2, item_product = 9\<rparr>"
    by (metis zero_less_one)
  from a ov om have 2: "status_sent (snd (orders_post 7 demo_db orphan_order_body)) = None"
    by blast
  with a have 3: "orders (fst (orders_post 7 demo_db orphan_order_body)) = orders demo_db"
    by simp
  from b u0 n have 4: "map_of (orderItems (fst (orders_post 7 demo_db unaddressed_order_body))) (3 + 0) =
     Some \<lparr>quantity = int_num 2, item_product = 2\<rparr>"
    by (metis zero_less_numeral)
  from b u1 n have 5: "map_of (orderItems (fst (orders_post 7 demo_db unaddressed_order_body))) (3 + 1) =
     Some \<lparr>quantity = int_num 4, item_product = 2\<rparr>"
    by (metis one_less_numeral_iff semiring_norm(76))
  from b uv ur ua have 6: "status_sent (snd (orders_post 7 demo_db unaddressed_order_body)) = Some 500"
    by blast
  with b have 7: "orders (fst (orders_post 7 demo_db unaddressed_order_body)) = orders demo_db"
    by simp
  from 1 2 3 4 5 6 7 show ?thesis by simp
qed

section \<open>The status enumeration\<close>

text \<open>
  Claim C7 fails on the code. The store holds one order with status \<open>Pending\<close>;
  \<open>PUT /orders/:id\<close> with the status \<open>Foo\<close> answers 200 and stores \<open>Foo\<close>, which is
  not in the enumeration.
\<close>

theorem orders_put_breaks_status_enum:
  "status_invariant demo_db_ordered \<and>
   status_sent (snd (orders_put demo_db_ordered ''000000000000000000000005'' (Given ''Foo''))) = Some 200 \<and>
   map_option status
     (map_of (orders (fst (orders_put demo_db_ordered ''000000000000000000000005'' (Given ''Foo'')))) 5)
     = Some (Some ''Foo'') \<and>
   \<not> status_invariant (fst (orders_put demo_db_ordered ''000000000000000000000005'' (Given ''Foo'')))"
  by (simp add: status_invariant_def demo_db_ordered_def demo_order_def status_enum_def
        orders_put_def findById_def cast5 status_sent_def send_def res_send_def res_status_def res0_def Let_def)

text \<open>
  Order creation, the sibling path, validates a status that is given and sets
  \<open>Pending\<close> when none is, so it keeps the invariant for every body whose status is not
  \<open>null\<close>; so does deletion. A \<open>null\<close> status passes the validator of the enumeration
  and is stored as it is.
\<close>

lemma list_all_update:
  "list_all P al \<Longrightarrow> P (k, v) \<Longrightarrow> list_all P (AList.update k v al)"
  by (induction al) auto

lemma new_order_status:
  "new_order now b ids t = Inr ord \<Longrightarrow>
     status ord = with_default ''Pending'' (ob_status b) \<and>
     (\<forall>s. status ord = Some s \<longrightarrow> s \<in> set status_enum) \<and>
     (ob_status b \<noteq> Null \<longrightarrow> status ord \<noteq> None)"
  by (auto simp: new_order_def with_default_def status_enum_def split: if_splits field.splits)

lemma new_order_status_ok:
  "new_order now b ids t = Inr ord \<Longrightarrow> ob_status b \<noteq> Null \<Longrightarrow>
     (case status ord of None \<Rightarrow> False | Some s \<Rightarrow> s \<in> set status_enum)"
  by (auto simp: new_order_def with_default_def status_enum_def split: if_splits field.splits)

lemma orders_post_status_invariant:
  assumes "status_invariant d" and "ob_status b \<noteq> Null"
  shows "status_invariant (fst (orders_post now d b))"
proof (cases "ob_orderItems b")
  case Absent
  with assms show ?thesis by (simp add: orders_post_def)
next
  case Null
  with assms show ?thesis by (simp add: orders_post_def)
next
  case (Given items)
  obtain d1 saved where s: "save_items d items = (d1, saved)"
    by (cases "save_items d items")
  have o: "orders d1 = orders d" using save_items_frame[OF s] by simp
  show ?thesis
    using assms Given s o new_order_status_ok[of now b]
    by (auto simp: orders_post_def Let_def status_invariant_def split: sum.splits
          intro!: list_all_update)
qed

lemma orders_post_null_status:
  "status_sent (snd (orders_post 7 demo_db (demo_order_body\<lparr>ob_status := Null\<rparr>))) = Some 201 \<and>
   map_option status (map_of (orders (fst (orders_post 7 demo_db (demo_order_body\<lparr>ob_status := Null\<rparr>)))) 5)
     = Some None"
  by (simp add: orders_post_def demo_order_body_def demo_items_def demo_db_def
        new_order_item_def given_def with_default_def int_num_not_NaN cast2 item_price_def
        new_order_def required_str_def or_default_def status_enum_def demo_product_def to_number_def
        demo_arithmetic Let_def status_sent_def send_def res_send_def res_status_def res0_def)

lemma orders_delete_status_invariant:
  assumes "status_invariant d"
  shows "status_invariant (fst (orders_delete d i))"
  using assms
  by (auto simp: orders_delete_def status_invariant_def AList.delete_eq list_all_iff
      split: sum.splits option.splits)

section \<open>The authentication gate and where it stands\<close>

text \<open>
  The gate by itself does what the specification says: it lets a request pass exactly
  when the request is allow-listed or carries a valid, unexpired token of an
  administrator, and every rejection becomes a 401.
\<close>

lemma authJwt_gate:
  "(authJwt api req = None \<longleftrightarrow> allow_listed api req \<or> admin_token_ok req) \<and>
   (\<forall>e. authJwt api req = Some e \<longrightarrow> code_of (errorHandler e) = 401)"
  by (auto simp: authJwt_def expressJwt_def admin_token_ok_def isRevoked_def unauthorized_def
        errorHandler_def split: option.splits if_splits)

lemma routers_before_gate:
  "toUpperCase (req_method req) \<noteq> ''OPTIONS'' \<Longrightarrow> first_router api routers req = Some h \<Longrightarrow>
     app api req = h"
  by (simp add: app_def)

text \<open>
  A \<open>HEAD\<close> request is taken by the \<open>GET\<close> route, and an \<open>OPTIONS\<close> request is
  answered by \<open>cors()\<close> before any route or the gate.
\<close>

lemma app_head_and_options:
  "app ''/api/v1'' \<lparr>req_method = ''HEAD'', req_path = ''/api/v1/orders'', bearer = None\<rparr>
     = Handled ''orders'' ''get'' ''/'' \<and>
   app ''/api/v1'' \<lparr>req_method = ''OPTIONS'', req_path = ''/api/v1/orders'', bearer = None\<rparr>
     = Preflight"
  by code_simp

text \<open>
  Claim C2 fails on the code. \<open>POST /api/v1/orders\<close> without a token is not
  allow-listed and the gate would reject it, but \<open>app.js\<close> mounts the routers before
  the gate: the request is taken by the route \<open>post /\<close> of the orders router and never
  meets the gate.
\<close>

theorem app_unauthenticated_reaches_handler:
  "\<not> allow_listed ''/api/v1'' unauthenticated_order_request \<and>
   \<not> admin_token_ok unauthenticated_order_request \<and>
   authJwt ''/api/v1'' unauthenticated_order_request =
     Some (unauthorized ''credentials_required'' ''No authorization token was found'') \<and>
   app ''/api/v1'' unauthenticated_order_request = Handled ''orders'' ''post'' ''/''"
  by code_simp

section \<open>The generated documentation\<close>

lemma operation_at_add_route:
  "operation_at (add_route f paths (m, p)) url k =
     (if url = fullPath f p \<and> k = toLowerCase m then Some (pathObj f p m)
      else operation_at paths url k)"
  by (simp add: operation_at_def add_route_def Let_def update_conv' object_fields_def)

lemma foldl_add_route_flat:
  "foldl (add_route f) paths routes =
     foldl (\<lambda>ps (f, m, p). add_route f ps (m, p)) paths (map (\<lambda>(m, p). (f, m, p)) routes)"
  by (induction routes arbitrary: paths) (auto simp: case_prod_beta)

lemma generateSwaggerPaths_flat:
  "foldl (\<lambda>paths (routerFile, routes). foldl (add_route routerFile) paths routes) paths0 files =
     foldl (\<lambda>ps (f, m, p). add_route f ps (m, p)) paths0 (all_routes files)"
proof (induction files arbitrary: paths0)
  case Nil
  then show ?case by (simp add: all_routes_def)
next
  case (Cons a files)
  obtain f routes where a: "a = (f, routes)" by (cases a)
  show ?case
    using Cons.IH[of "foldl (add_route f) paths0 routes"]
    by (simp add: a all_routes_def foldl_add_route_flat)
qed

lemma operation_at_foldl:
  assumes "distinct (map route_key rs)" and "(f, m, p) \<in> set rs"
  shows "operation_at (foldl (\<lambda>ps (f, m, p). add_route f ps (m, p)) paths rs) (fullPath f p) (toLowerCase m)
           = Some (pathObj f p m)"
  using assms
proof (induction rs arbitrary: paths rule: rev_induct)
  case Nil
  then show ?case by simp
next
  case (snoc r rs)
  obtain f' m' p' where r: "r = (f', m', p')" by (cases r)
  show ?case
  proof (cases "(f, m, p) = r")
    case True
    then show ?thesis by (simp add: r operation_at_add_route)
  next
    case False
    with snoc.prems have mem: "(f, m, p) \<in> set rs" by simp
    from snoc.prems(1) have d: "distinct (map route_key rs)" and
      nk: "route_key r \<notin> route_key ` set rs" by simp_all
    from nk mem have "route_key (f, m, p) \<noteq> route_key r"
      by (metis image_eqI)
    then have "\<not> (fullPath f p = fullPath f' p' \<and> toLowerCase m = toLowerCase m')"
      by (auto simp: route_key_def r)
    with snoc.IH[OF d mem] show ?thesis
      by (auto simp: r operation_at_add_route)
  qed
qed

lemma generateSwaggerPaths_operation:
  assumes "distinct (map route_key (all_routes files))"
      and "(f, routes) \<in> set files" and "(m, p) \<in> set routes"
  shows "operation_at (generateSwaggerPaths files) (fullPath f p) (toLowerCase m) = Some (pathObj f p m)"
proof -
  from assms(2,3) have "(f, m, p) \<in> set (all_routes files)"
    by (force simp: all_routes_def)
  from operation_at_foldl[OF assms(1) this] show ?thesis
    by (simp add: generateSwaggerPaths_def generateSwaggerPaths_flat)
qed

lemma routerFiles_distinct: "distinct (map route_key (all_routes routerFiles))"
  by code_simp

lemma pathObj_operationId:
  "json_field (pathObj f p m) ''operationId'' = Some (JStr (generateOperationId p (toLowerCase m)))"
  by (simp add: pathObj_def json_field_def Let_def)

lemma pathObj_responses:
  "json_field (pathObj f p m) ''responses'' =
     Some (determineResponseSchema p (toLowerCase m) (generateTag f))"
  by (simp add: pathObj_def json_field_def Let_def)

lemma schema_200_eq:
  "schema_200 (determineResponseSchema p m t) = json_at (Some (successResponse p m t)) [''content'', ''application/json'', ''schema'']"
  by (simp add: schema_200_def determineResponseSchema_def json_field_def)

lemma schema_of_response_of:
  "json_at (Some (response_of d sch)) [''content'', ''application/json'', ''schema''] = Some sch"
  by (simp add: response_of_def json_content_def json_field_def)

lemma id_not_root: "includes_str p ''/:id'' \<Longrightarrow> p \<noteq> ''/'' \<and> p \<noteq> []"
  by auto

lemma count_not_root: "includes_str p ''/count'' \<Longrightarrow> p \<noteq> ''/'' \<and> p \<noteq> []"
  by auto

lemma get_by_id_schema:
  "includes_str p ''/:id'' \<Longrightarrow>
     schema_200 (determineResponseSchema p ''get'' t) = Some (schema_ref (singular t))"
  using id_not_root[of p]
  by (simp add: schema_200_eq successResponse_def Let_def schema_of_response_of del: json_at.simps includes_str.simps)

lemma get_count_schema:
  "includes_str p ''/count'' \<Longrightarrow> \<not> includes_str p ''/:id'' \<Longrightarrow>
     schema_200 (determineResponseSchema p ''get'' t) = Some count_schema"
  using count_not_root[of p]
  by (simp add: schema_200_eq successResponse_def Let_def schema_of_response_of del: json_at.simps includes_str.simps)

lemma get_root_schema:
  "p = ''/'' \<or> p = [] \<Longrightarrow>
     schema_200 (determineResponseSchema p ''get'' t) =
       Some (JObj [(''type'', JStr ''array''), (''items'', schema_ref (singular t))])"
  by (auto simp add: schema_200_eq successResponse_def Let_def schema_of_response_of simp del: json_at.simps)

lemma post_root_schema:
  "p = ''/'' \<or> p = [] \<Longrightarrow>
     schema_200 (determineResponseSchema p ''post'' t) = Some (schema_ref (singular t))"
  by (auto simp add: schema_200_eq successResponse_def Let_def schema_of_response_of simp del: json_at.simps)

lemma delete_by_id_schema:
  "includes_str p ''/:id'' \<Longrightarrow>
     schema_200 (determineResponseSchema p ''delete'' t) = Some (deleted_schema (singular t))"
  by (simp add: schema_200_eq successResponse_def Let_def schema_of_response_of del: json_at.simps includes_str.simps)

lemma registered_count_routes:
  "list_all (\<lambda>(f, m, p). \<not> (includes_str p ''/count'' \<and> includes_str p ''/:id'')) (all_routes routerFiles)"
  by code_simp

lemma foldl_add_path:
  assumes "distinct (map fst paths)" and "(p, st) \<in> set paths" and "p \<noteq> ''__v''" and "p \<noteq> ''_id''"
  shows "map_of (foldl add_path init paths) p = Some (JObj (fieldInfo st))"
  using assms(1,2)
proof (induction paths rule: rev_induct)
  case Nil
  then show ?case by simp
next
  case (snoc a paths)
  obtain q t where a: "a = (q, t)" by (cases a)
  show ?case
  proof (cases "q = p")
    case True
    with snoc.prems a have "t = st"
      by (auto simp: image_iff)
    with True a assms(3,4) show ?thesis
      by (simp add: add_path_def update_conv')
  next
    case False
    with snoc.prems a have "(p, st) \<in> set paths" "distinct (map fst paths)" by auto
    from snoc.IH[OF this(2,1)] False a show ?thesis
      by (simp add: add_path_def update_conv')
  qed
qed

lemma extractModelSchema_property:
  assumes "distinct (map fst paths)" and "(p, st) \<in> set paths" and "p \<noteq> ''__v''" and "p \<noteq> ''_id''"
  shows "\<exists>sch. extractModelSchema (Some paths) = Some sch \<and>
           json_at (Some sch) [''properties'', p] = Some (JObj (fieldInfo st))"
  using foldl_add_path[OF assms]
  by (simp add: extractModelSchema_def json_field_def)

lemma generateSchemasFromModels_lookup:
  assumes "distinct (map fst models)" and "(n, Some paths) \<in> set models"
  shows "map_of (foldl (\<lambda>schemas (modelName, model).
              case extractModelSchema model of
                None \<Rightarrow> schemas
              | Some schema \<Rightarrow> AList.update modelName schema schemas) init models) n
           = extractModelSchema (Some paths)"
  using assms
proof (induction models rule: rev_induct)
  case Nil
  then show ?case by simp
next
  case (snoc a models)
  obtain k model where a: "a = (k, model)" by (cases a)
  show ?case
  proof (cases "k = n")
    case True
    with snoc.prems a have "model = Some paths"
      by (auto simp: image_iff)
    with True a show ?thesis
      by (simp add: update_conv' extractModelSchema_def)
  next
    case False
    with snoc.prems a have "(n, Some paths) \<in> set models" "distinct (map fst models)" by auto
    from snoc.IH[OF this(2,1)] False a show ?thesis
      by (simp add: update_conv' split: option.splits)
  qed
qed

lemma convert_no_validator_keys:
  "k \<in> {''minimum'', ''maximum'', ''enum''} \<Longrightarrow> map_of (convertMongooseTypeToSwagger st) k = None"
  by (cases st) (auto simp: typeMap_def object_fields_def split: option.splits)

lemma add_validator_minimum:
  "map_of (add_validator acc v) ''minimum'' =
     (case v of Min n \<Rightarrow> Some (JNum n) | _ \<Rightarrow> map_of acc ''minimum'')"
  by (cases v) (simp_all add: update_conv')

lemma add_validator_maximum:
  "map_of (add_validator acc v) ''maximum'' =
     (case v of Max n \<Rightarrow> Some (JNum n) | _ \<Rightarrow> map_of acc ''maximum'')"
  by (cases v) (simp_all add: update_conv')

lemma add_validator_enum:
  "map_of (add_validator acc v) ''enum'' =
     (case v of Enum e \<Rightarrow> Some (JArr (map JStr e)) | _ \<Rightarrow> map_of acc ''enum'')"
  by (cases v) (simp_all add: update_conv')

lemma add_validator_type: "map_of (add_validator acc v) ''type'' = map_of acc ''type''"
  by (cases v) (simp_all add: update_conv')

lemma foldl_add_validator_minimum:
  "map_of (foldl add_validator acc vs) ''minimum'' =
     (case declared_min vs of Some n \<Rightarrow> Some (JNum n) | None \<Rightarrow> map_of acc ''minimum'')"
  by (induction vs arbitrary: acc)
     (auto simp: add_validator_minimum split: option.splits validator.splits)

lemma foldl_add_validator_maximum:
  "map_of (foldl add_validator acc vs) ''maximum'' =
     (case declared_max vs of Some n \<Rightarrow> Some (JNum n) | None \<Rightarrow> map_of acc ''maximum'')"
  by (induction vs arbitrary: acc)
     (auto simp: add_validator_maximum split: option.splits validator.splits)

lemma foldl_add_validator_enum:
  "map_of (foldl add_validator acc vs) ''enum'' =
     (case declared_enum vs of Some e \<Rightarrow> Some (JArr (map JStr e)) | None \<Rightarrow> map_of acc ''enum'')"
  by (induction vs arbitrary: acc)
     (auto simp: add_validator_enum split: option.splits validator.splits)

lemma foldl_add_validator_type:
  "map_of (foldl add_validator acc vs) ''type'' = map_of acc ''type''"
  by (induction vs arbitrary: acc) (auto simp: add_validator_type)

lemma fallback_fold_keeps:
  assumes "map_of modelSchemas n = Some sch"
  shows "map_of init n = Some sch \<Longrightarrow>
     map_of (foldl (\<lambda>schemas (k, fb).
                 AList.update k (case map_of modelSchemas k of None \<Rightarrow> fb | Some s \<Rightarrow> s) schemas)
          init fbs) n = Some sch"
proof (induction fbs arbitrary: init)
  case Nil
  then show ?case by simp
next
  case (Cons a fbs)
  obtain k fb where a: "a = (k, fb)" by (cases a)
  have "map_of (AList.update k (case map_of modelSchemas k of None \<Rightarrow> fb | Some s \<Rightarrow> s) init) n = Some sch"
    using Cons.prems assms by (auto simp: update_conv')
  from Cons.IH[OF this] show ?case by (simp add: a)
qed

lemma component_schemas_keeps:
  assumes "map_of modelSchemas n = Some sch" and "n \<noteq> ''Error''"
  shows "map_of (component_schemas modelSchemas) n = Some sch"
  using fallback_fold_keeps[OF assms(1) assms(1), of fallbacks] assms(2)
  by (simp add: component_schemas_def update_conv')

lemma fieldInfo_keys:
  "map_of (fieldInfo st) ''type'' = map_of (convertMongooseTypeToSwagger st) ''type'' \<and>
   map_of (fieldInfo st) ''minimum'' = map_option JNum (declared_min (st_validators st)) \<and>
   map_of (fieldInfo st) ''maximum'' = map_option JNum (declared_max (st_validators st)) \<and>
   map_of (fieldInfo st) ''enum'' = map_option (\<lambda>e. JArr (map JStr e)) (declared_enum (st_validators st))"
  by (simp add: fieldInfo_def Let_def update_conv' foldl_add_validator_type
        foldl_add_validator_minimum foldl_add_validator_maximum foldl_add_validator_enum
        convert_no_validator_keys
      split: option.splits)

lemma convert_type:
  "map_of (convertMongooseTypeToSwagger st) ''type'' =
     Some (JStr (if st_instance st = ''Array'' then ''array''
                 else if st_instance st \<in> {''Number'', ''Decimal128''} then ''number''
                 else if st_instance st = ''Boolean'' then ''boolean''
                 else if st_instance st \<in> {''Mixed'', ''Map''} then ''object''
                 else ''string''))"
  by (cases st) (simp add: typeMap_def object_fields_def split: option.splits)

lemma routerFiles_lowercase:
  "list_all (\<lambda>(f, m, p). toLowerCase m = m) (all_routes routerFiles)"
  by code_simp

lemma registered_in_all_routes:
  "(f, routes) \<in> set files \<Longrightarrow> (m, p) \<in> set routes \<Longrightarrow> (f, m, p) \<in> set (all_routes files)"
  by (force simp: all_routes_def)

lemma registered_route_documented:
  assumes "(f, routes) \<in> set routerFiles" and "(m, p) \<in> set routes"
  shows "json_at (operation_at (generateSwaggerPaths routerFiles) (fullPath f p) m) [''operationId'']
           = Some (JStr (generateOperationId p m)) \<and>
         json_at (operation_at (generateSwaggerPaths routerFiles) (fullPath f p) m) [''responses'']
           = Some (determineResponseSchema p m (generateTag f))"
proof -
  from registered_in_all_routes[OF assms] routerFiles_lowercase
  have low: "toLowerCase m = m"
    by (auto simp: list_all_iff)
  from generateSwaggerPaths_operation[OF routerFiles_distinct assms] low
  have "operation_at (generateSwaggerPaths routerFiles) (fullPath f p) m = Some (pathObj f p m)"
    by simp
  with pathObj_operationId[of f p m] pathObj_responses[of f p m] low show ?thesis
    by simp
qed

lemma registered_count_schema:
  assumes "(f, routes) \<in> set routerFiles" and "(m, p) \<in> set routes"
      and "m = ''get''" and "includes_str p ''/count''"
  shows "schema_200 (determineResponseSchema p m (generateTag f)) = Some count_schema"
proof -
  from registered_in_all_routes[OF assms(1,2)] registered_count_routes assms(4)
  have "\<not> includes_str p ''/:id''"
    by (auto simp: list_all_iff)
  with get_count_schema[OF assms(4)] assms(3) show ?thesis by simp
qed

lemma model_property_documented:
  assumes "distinct (map fst models)" and "(n, Some paths) \<in> set models" and "n \<noteq> ''Error''"
      and "distinct (map fst paths)" and "(p, st) \<in> set paths" and "p \<noteq> ''__v''" and "p \<noteq> ''_id''"
  shows "json_at (map_of (component_schemas (generateSchemasFromModels models)) n) [''properties'', p]
           = Some (JObj (fieldInfo st))"
proof -
  from extractModelSchema_property[OF assms(4,5,6,7)] obtain sch where
    sch: "extractModelSchema (Some paths) = Some sch"
    and at_p: "json_at (Some sch) [''properties'', p] = Some (JObj (fieldInfo st))"
    by blast
  have "map_of (generateSchemasFromModels models) n = Some sch"
    using generateSchemasFromModels_lookup[OF assms(1,2)] sch
    by (simp add: generateSchemasFromModels_def)
  from component_schemas_keeps[OF this assms(3)] at_p show ?thesis by simp
qed

lemma fieldInfo_documents:
  "map_of (fieldInfo st) ''type'' = Some (JStr (swagger_type st)) \<and>
   map_of (fieldInfo st) ''minimum'' = map_option JNum (declared_min (st_validators st)) \<and>
   map_of (fieldInfo st) ''maximum'' = map_option JNum (declared_max (st_validators st)) \<and>
   map_of (fieldInfo st) ''enum'' = map_option (\<lambda>e. JArr (map JStr e)) (declared_enum (st_validators st))"
  using fieldInfo_keys[of st] convert_type[of st] by (simp add: swagger_type_def)

text \<open>
  What the generator writes for the registered routes. The operation identifier is
  the method followed by \<open>Root\<close> for the root path, by the capitalised second part for
  a path with a part \<open>get\<close>, and otherwise by the parts of the path, all but the first
  capitalised:
\<close>

lemma registered_operation_ids:
  "map (\<lambda>(f, m, p). (fullPath f p, m, generateOperationId p m)) (all_routes routerFiles) =
     [(''/categories'', ''get'', ''getRoot''),
      (''/categories/:id'', ''get'', ''getid''),
      (''/categories'', ''post'', ''postRoot''),
      (''/categories/:id'', ''put'', ''putid''),
      (''/categories/:id'', ''delete'', ''deleteid''),
      (''/orders'', ''get'', ''getRoot''),
      (''/orders/:id'', ''get'', ''getid''),
      (''/orders/get/count'', ''get'', ''getCount''),
      (''/orders/get/totalsales'', ''get'', ''getTotalsales''),
      (''/orders/get/status/:status'', ''get'', ''getStatus''),
      (''/orders/get/userorders/:userId'', ''get'', ''getUserorders''),
      (''/orders'', ''post'', ''postRoot''),
      (''/orders/:id'', ''put'', ''putid''),
      (''/orders/:id'', ''delete'', ''deleteid''),
      (''/products'', ''get'', ''getRoot''),
      (''/products/:id'', ''get'', ''getid''),
      (''/products/get/count'', ''get'', ''getCount''),
      (''/products/get/featured/:count'', ''get'', ''getFeatured''),
      (''/products'', ''post'', ''postRoot''),
      (''/products/:id'', ''delete'', ''deleteid''),
      (''/products/:id'', ''put'', ''putid''),
      (''/products/gallery-images/:id'', ''put'', ''putgalleryImagesId''),
      (''/users'', ''get'', ''getRoot''),
      (''/users/:id'', ''get'', ''getid''),
      (''/users/get/count'', ''get'', ''getCount''),
      (''/users'', ''post'', ''postRoot''),
      (''/users/login'', ''post'', ''postlogin''),
      (''/users/:id'', ''put'', ''putid''),
      (''/users/:id'', ''delete'', ''deleteid'')]"
  by code_simp

text \<open>The schema of the 200 response of every registered route:\<close>

lemma registered_response_schemas:
  "map (\<lambda>(f, m, p). (fullPath f p, m, schema_200 (determineResponseSchema p m (generateTag f))))
     (all_routes routerFiles) =
     [(''/categories'', ''get'',
        Some
         (JObj
           [(''type'', JStr ''array''),
            (''items'', JObj [(''$ref'', JStr ''#/components/schemas/Categorie'')])])),
       (''/categories/:id'', ''get'',
        Some (JObj [(''$ref'', JStr ''#/components/schemas/Categorie'')])),
       (''/categories'', ''post'',
        Some (JObj [(''$ref'', JStr ''#/components/schemas/Categorie'')])),
       (''/categories/:id'', ''put'',
        Some (JObj [(''$ref'', JStr ''#/components/schemas/Categorie'')])),
       (''/categories/:id'', ''delete'',
        Some
         (JObj
           [(''type'', JStr ''object''),
            (''properties'',
             JObj
              [(''success'', JObj [(''type'', JStr ''boolean''), (''example'', JBool True)]),
               (''message'',
                JObj
                 [(''type'', JStr ''string''),
                  (''example'', JStr ''Categorie deleted successfully'')])])])),
       (''/orders'', ''get'',
        Some
         (JObj
           [(''type'', JStr ''array''),
            (''items'', JObj [(''$ref'', JStr ''#/components/schemas/Order'')])])),
       (''/orders/:id'', ''get'', Some (JObj [(''$ref'', JStr ''#/components/schemas/Order'')])),
       (''/orders/get/count'', ''get'',
        Some
         (JObj
           [(''type'', JStr ''object''),
            (''properties'',
             JObj [(''count'', JObj [(''type'', JStr ''integer''), (''example'', JNum 42)])])])),
       (''/orders/get/totalsales'', ''get'', Some (JObj [])),
       (''/orders/get/status/:status'', ''get'', Some (JObj [])),
       (''/orders/get/userorders/:userId'', ''get'', Some (JObj [])),
       (''/orders'', ''post'', Some (JObj [(''$ref'', JStr ''#/components/schemas/Order'')])),
       (''/orders/:id'', ''put'', Some (JObj [(''$ref'', JStr ''#/components/schemas/Order'')])),
       (''/orders/:id'', ''delete'',
        Some
         (JObj
           [(''type'', JStr ''object''),
            (''properties'',
             JObj
              [(''success'', JObj [(''type'', JStr ''boolean''), (''example'', JBool True)]),
               (''message'',
                JObj
                 [(''type'', JStr ''string''),
                  (''example'', JStr ''Order deleted successfully'')])])])),
       (''/products'', ''get'',
        Some
         (JObj
           [(''type'', JStr ''array''),
            (''items'', JObj [(''$ref'', JStr ''#/components/schemas/Product'')])])),
       (''/products/:id'', ''get'', Some (JObj [(''$ref'', JStr ''#/components/schemas/Product'')])),
       (''/products/get/count'', ''get'',
        Some
         (JObj
           [(''type'', JStr ''object''),
            (''properties'',
             JObj [(''count'', JObj [(''type'', JStr ''integer''), (''example'', JNum 42)])])])),
       (''/products/get/featured/:count'', ''get'', Some (JObj [])),
       (''/products'', ''post'', Some (JObj [(''$ref'', JStr ''#/components/schemas/Product'')])),
       (''/products/:id'', ''delete'',
        Some
         (JObj
           [(''type'', JStr ''object''),
            (''properties'',
             JObj
              [(''success'', JObj [(''type'', JStr ''boolean''), (''example'', JBool True)]),
               (''message'',
                JObj
                 [(''type'', JStr ''string''),
                  (''example'', JStr ''Product deleted successfully'')])])])),
       (''/products/:id'', ''put'', Some (JObj [(''$ref'', JStr ''#/components/schemas/Product'')])),
       (''/products/gallery-images/:id'', ''put'',
        Some (JObj [(''$ref'', JStr ''#/components/schemas/Product'')])),
       (''/users'', ''get'',
        Some
         (JObj
           [(''type'', JStr ''array''),
            (''items'', JObj [(''$ref'', JStr ''#/components/schemas/User'')])])),
       (''/users/:id'', ''get'', Some (JObj [(''$ref'', JStr ''#/components/schemas/User'')])),
       (''/users/get/count'', ''get'',
        Some
         (JObj
           [(''type'', JStr ''object''),
            (''properties'',
             JObj [(''count'', JObj [(''type'', JStr ''integer''), (''example'', JNum 42)])])])),
       (''/users'', ''post'', Some (JObj [(''$ref'', JStr ''#/components/schemas/User'')])),
       (''/users/login'', ''post'',
        Some
         (JObj
           [(''type'', JStr ''object''),
            (''properties'',
             JObj
              [(''user'',
                JObj [(''type'', JStr ''string''), (''example'', JStr ''user@example.com'')]),
               (''token'',
                JObj
                 [(''type'', JStr ''string''), (''example'', JStr ''eyJhbGciOiJIUzI1...'')])])])),
       (''/users/:id'', ''put'', Some (JObj [(''$ref'', JStr ''#/components/schemas/User'')])),
       (''/users/:id'', ''delete'',
        Some
         (JObj
           [(''type'', JStr ''object''),
            (''properties'',
             JObj
              [(''success'', JObj [(''type'', JStr ''boolean''), (''example'', JBool True)]),
               (''message'',
                JObj
                 [(''type'', JStr ''string''),
                  (''example'', JStr ''User deleted successfully'')])])]))]"
  by code_simp

text \<open>
  The schema of the 200 response, for any path and any tag: by the method and by
  what the path contains, in the order the generator tests.
\<close>

lemma response_schema_patterns:
  "(includes_str p ''/:id'' \<longrightarrow>
      schema_200 (determineResponseSchema p ''get'' t) =
        Some (JObj [(''$ref'', JStr (''#/components/schemas/'' @ (if endsWith t ''s'' then butlast t else t)))]) \<and>
      schema_200 (determineResponseSchema p ''delete'' t) =
        Some (JObj [(''type'', JStr ''object''),
           (''properties'',
              JObj [(''success'', JObj [(''type'', JStr ''boolean''), (''example'', JBool True)]),
                    (''message'', JObj [(''type'', JStr ''string''),
                       (''example'', JStr ((if endsWith t ''s'' then butlast t else t) @ '' deleted successfully''))])])])) \<and>
   (includes_str p ''/count'' \<and> \<not> includes_str p ''/:id'' \<longrightarrow>
      schema_200 (determineResponseSchema p ''get'' t) =
        Some (JObj [(''type'', JStr ''object''),
           (''properties'', JObj [(''count'', JObj [(''type'', JStr ''integer''), (''example'', JNum 42)])])])) \<and>
   (p = ''/'' \<or> p = [] \<longrightarrow>
      schema_200 (determineResponseSchema p ''get'' t) =
        Some (JObj [(''type'', JStr ''array''),
           (''items'', JObj [(''$ref'', JStr (''#/components/schemas/'' @ (if endsWith t ''s'' then butlast t else t)))])]) \<and>
      schema_200 (determineResponseSchema p ''post'' t) =
        Some (JObj [(''$ref'', JStr (''#/components/schemas/'' @ (if endsWith t ''s'' then butlast t else t)))]))"
  using get_by_id_schema[of p t] delete_by_id_schema[of p t] get_count_schema[of p t]
    get_root_schema[of p t] post_root_schema[of p t]
  by (simp add: schema_ref_def singular_def count_schema_def deleted_schema_def
        del: includes_str.simps)

text \<open>
  The field definitions of the models: the stock of a product with its bounds, the
  status of an order with its enumeration, the product an order item refers to.
\<close>

lemma documented_fields:
  "json_at (map_of (component_schemas (generateSchemasFromModels (shop_models userSchema))) ''Product'')
       [''properties'', ''countInStock'']
     = Some (JObj [(''type'', JStr ''number''), (''minimum'', JNum 0), (''maximum'', JNum 255)])"
  "json_at (map_of (component_schemas (generateSchemasFromModels (shop_models userSchema))) ''Order'')
       [''properties'', ''status'']
     = Some (JObj [(''type'', JStr ''string''),
                   (''enum'', JArr [JStr ''Pending'', JStr ''Shipped'', JStr ''Delivered'', JStr ''Cancelled''])])"
  "json_at (map_of (component_schemas (generateSchemasFromModels (shop_models userSchema))) ''OrderItem'')
       [''properties'', ''product'']
     = Some (JObj [(''type'', JStr ''string''), (''description'', JStr ''Reference to Product model'')])"
proof -
  have m: "distinct (map fst (shop_models userSchema))"
    "(''Product'', Some productSchema) \<in> set (shop_models userSchema)"
    "(''Order'', Some orderSchema) \<in> set (shop_models userSchema)"
    "(''OrderItem'', Some orderItemSchema) \<in> set (shop_models userSchema)"
    "distinct (map fst productSchema)" "distinct (map fst orderSchema)"
    "distinct (map fst orderItemSchema)"
    "(''countInStock'', plain ''Number'' [Required, Min 0, Max 255]) \<in> set productSchema"
    "(''status'', plain ''String'' [Enum status_enum]) \<in> set orderSchema"
    "(''product'', reference ''Product'' [Required]) \<in> set orderItemSchema"
    by (simp_all add: shop_models_def productSchema_def orderSchema_def orderItemSchema_def)
  have f: "fieldInfo (plain ''Number'' [Required, Min 0, Max 255]) =
             [(''type'', JStr ''number''), (''minimum'', JNum 0), (''maximum'', JNum 255)]"
    "fieldInfo (plain ''String'' [Enum status_enum]) =
       [(''type'', JStr ''string''),
        (''enum'', JArr [JStr ''Pending'', JStr ''Shipped'', JStr ''Delivered'', JStr ''Cancelled''])]"
    "fieldInfo (reference ''Product'' [Required]) =
       [(''type'', JStr ''string''), (''description'', JStr ''Reference to Product model'')]"
    by (simp_all add: fieldInfo_def plain_def reference_def typeMap_def object_fields_def status_enum_def)
  show "json_at (map_of (component_schemas (generateSchemasFromModels (shop_models userSchema))) ''Product'')
       [''properties'', ''countInStock'']
     = Some (JObj [(''type'', JStr ''number''), (''minimum'', JNum 0), (''maximum'', JNum 255)])"
    using model_property_documented[OF m(1) m(2) _ m(5) m(8)] f
    by (simp del: json_at.simps)
  show "json_at (map_of (component_schemas (generateSchemasFromModels (shop_models userSchema))) ''Order'')
       [''properties'', ''status'']
     = Some (JObj [(''type'', JStr ''string''),
                   (''enum'', JArr [JStr ''Pending'', JStr ''Shipped'', JStr ''Delivered'', JStr ''Cancelled''])])"
    using model_property_documented[OF m(1) m(3) _ m(6) m(9)] f
    by (simp del: json_at.simps)
  show "json_at (map_of (component_schemas (generateSchemasFromModels (shop_models userSchema))) ''OrderItem'')
       [''properties'', ''product'']
     = Some (JObj [(''type'', JStr ''string''), (''description'', JStr ''Reference to Product model'')])"
    using model_property_documented[OF m(1) m(4) _ m(7) m(10)] f
    by (simp del: json_at.simps)
qed

text \<open>The names under which \<open>components.schemas\<close> holds a schema.\<close>

lemma component_names:
  "map fst (component_schemas (generateSchemasFromModels (shop_models userSchema))) =
     [''User'', ''Product'', ''Category'', ''Order'', ''OrderItem'', ''Error'']"
  by (simp add: component_schemas_def generateSchemasFromModels_def shop_models_def
        extractModelSchema_def fallbacks_def)

lemma documented_operation:
  assumes "(f, routes) \<in> set routerFiles" and "(m, p) \<in> set routes"
  shows "operation_at (generateSwaggerPaths routerFiles) (fullPath f p) m = Some (pathObj f p m)"
proof -
  from registered_in_all_routes[OF assms] routerFiles_lowercase
  have "toLowerCase m = m"
    by (auto simp: list_all_iff)
  with generateSwaggerPaths_operation[OF routerFiles_distinct assms] show ?thesis
    by simp
qed

text \<open>
  Claim C8 fails on the code. The name of the resource is the router's tag without
  its last letter when that is an \<open>s\<close>. For the categories router the tag is
  \<open>Categories\<close> and the name \<open>Categorie\<close>: the documented response of
  \<open>GET /categories/:id\<close> is a reference to \<open>#/components/schemas/Categorie\<close>, and so
  are the items of \<open>GET /categories\<close> and the response of \<open>POST /categories\<close>. The
  components hold the schema of the category model under \<open>Category\<close> and nothing under
  \<open>Categorie\<close>, so the reference names no schema and the route has no single-resource
  schema. For the products router the same rule gives \<open>Product\<close>, which is a component.
\<close>

theorem swagger_categories_reference_dangles:
  "json_at (operation_at (generateSwaggerPaths routerFiles) ''/categories/:id'' ''get'')
       [''responses'', ''200'', ''content'', ''application/json'', ''schema'']
     = Some (JObj [(''$ref'', JStr ''#/components/schemas/Categorie'')]) \<and>
   json_at (operation_at (generateSwaggerPaths routerFiles) ''/categories'' ''get'')
       [''responses'', ''200'', ''content'', ''application/json'', ''schema'']
     = Some (JObj [(''type'', JStr ''array''),
                   (''items'', JObj [(''$ref'', JStr ''#/components/schemas/Categorie'')])]) \<and>
   json_at (operation_at (generateSwaggerPaths routerFiles) ''/categories'' ''post'')
       [''responses'', ''200'', ''content'', ''application/json'', ''schema'']
     = Some (JObj [(''$ref'', JStr ''#/components/schemas/Categorie'')]) \<and>
   map_of (component_schemas (generateSchemasFromModels (shop_models userSchema))) ''Categorie'' = None \<and>
   map_of (component_schemas (generateSchemasFromModels (shop_models userSchema))) ''Category''
     = extractModelSchema (Some categorySchema) \<and>
   json_at (operation_at (generateSwaggerPaths routerFiles) ''/products/:id'' ''get'')
       [''responses'', ''200'', ''content'', ''application/json'', ''schema'']
     = Some (JObj [(''$ref'', JStr ''#/components/schemas/Product'')]) \<and>
   map_of (component_schemas (generateSchemasFromModels (shop_models userSchema))) ''Product''
     = extractModelSchema (Some productSchema)"
proof -
  have c: "(''categories.js'', categories_routes) \<in> set routerFiles"
    "(''get'', ''/:id'') \<in> set categories_routes" "(''get'', ''/'') \<in> set categories_routes"
    "(''post'', ''/'') \<in> set categories_routes"
    "(''products.js'', products_routes) \<in> set routerFiles"
    "(''get'', ''/:id'') \<in> set products_routes"
    by (simp_all add: routerFiles_def categories_routes_def products_routes_def)
  have u: "fullPath ''categories.js'' ''/:id'' = ''/categories/:id''"
    "fullPath ''categories.js'' ''/'' = ''/categories''"
    "fullPath ''products.js'' ''/:id'' = ''/products/:id''"
    by code_simp+
  have o: "json_at (Some (pathObj ''categories.js'' ''/:id'' ''get''))
         [''responses'', ''200'', ''content'', ''application/json'', ''schema'']
       = Some (JObj [(''$ref'', JStr ''#/components/schemas/Categorie'')])"
    "json_at (Some (pathObj ''categories.js'' ''/'' ''get''))
         [''responses'', ''200'', ''content'', ''application/json'', ''schema'']
       = Some (JObj [(''type'', JStr ''array''),
                     (''items'', JObj [(''$ref'', JStr ''#/components/schemas/Categorie'')])])"
    "json_at (Some (pathObj ''categories.js'' ''/'' ''post''))
         [''responses'', ''200'', ''content'', ''application/json'', ''schema'']
       = Some (JObj [(''$ref'', JStr ''#/components/schemas/Categorie'')])"
    "json_at (Some (pathObj ''products.js'' ''/:id'' ''get''))
         [''responses'', ''200'', ''content'', ''application/json'', ''schema'']
       = Some (JObj [(''$ref'', JStr ''#/components/schemas/Product'')])"
    by code_simp+
  have n: "map_of (component_schemas (generateSchemasFromModels (shop_models userSchema))) ''Categorie'' = None"
  proof -
    have "''Categorie'' \<notin> set (map fst (component_schemas (generateSchemasFromModels (shop_models userSchema))))"
      by (simp only: component_names) simp
    then show ?thesis
      by (simp add: map_of_eq_None_iff)
  qed
  have m: "distinct (map fst (shop_models userSchema))"
    "(''Category'', Some categorySchema) \<in> set (shop_models userSchema)"
    "(''Product'', Some productSchema) \<in> set (shop_models userSchema)"
    by (simp_all add: shop_models_def)
  have g: "map_of (generateSchemasFromModels (shop_models userSchema)) ''Category''
             = extractModelSchema (Some categorySchema)"
    "map_of (generateSchemasFromModels (shop_models userSchema)) ''Product''
             = extractModelSchema (Some productSchema)"
    using generateSchemasFromModels_lookup[OF m(1) m(2)] generateSchemasFromModels_lookup[OF m(1) m(3)]
    by (simp_all add: generateSchemasFromModels_def)
  have k: "map_of (component_schemas (generateSchemasFromModels (shop_models userSchema))) ''Category''
             = extractModelSchema (Some categorySchema)"
    "map_of (component_schemas (generateSchemasFromModels (shop_models userSchema))) ''Product''
             = extractModelSchema (Some productSchema)"
    using g component_schemas_keeps[of "generateSchemasFromModels (shop_models userSchema)"]
    by (simp_all add: extractModelSchema_def)
  from documented_operation[OF c(1) c(2)] documented_operation[OF c(1) c(3)]
    documented_operation[OF c(1) c(4)] documented_operation[OF c(5) c(6)] u o n k
  show ?thesis
    by (simp only: simp_thms)
qed

end
